theory Spec2Isabelle
  imports Main
begin

section \<open>Gest\_Herb\_service: the package state derived from its samples\<close>

text \<open>
  \<^verbatim>\<open>actualizarEstadoPaqueteManual\<close> (Servicios/Gest\_Herb\_service/src/app.js) reads every
  sample of a package with its embedded classification rows
  (\<^verbatim>\<open>clasificacion_herbario!left(estado)\<close>) and derives the package state from them.
  A fetched sample is its \<^verbatim>\<open>id\<close> and the embedded array; the array is kept as the list of
  the \<^verbatim>\<open>estado\<close> fields of its rows, \<open>None\<close> when the field is null or missing.
\<close>

record muestra_con_clasificaciones =
  mc_id :: int
  mc_clasificacion_herbario :: "string list option"

text \<open>The two literal arrays the loop tests with \<^verbatim>\<open>includes\<close>.\<close>

definition estados_completados :: "string list" where
  "estados_completados = [''completado'', ''firmado'', ''clasificado'']"

definition estados_en_proceso :: "string list" where
  "estados_en_proceso = [''en_analisis'', ''borrador'']"

text \<open>
  One turn of the \<^verbatim>\<open>forEach\<close> body on the pair of counters
  \<^verbatim>\<open>(completadas, enProceso)\<close>: only a non-empty array is looked at, and only its
  element 0.
\<close>

definition contarMuestra :: "muestra_con_clasificaciones \<Rightarrow> nat \<times> nat \<Rightarrow> nat \<times> nat" where
  "contarMuestra muestra acc =
     (case mc_clasificacion_herbario muestra of
        None \<Rightarrow> acc
      | Some [] \<Rightarrow> acc
      | Some (estado # _) \<Rightarrow>
          if estado \<in> set estados_completados then (fst acc + 1, snd acc)
          else if estado \<in> set estados_en_proceso then (fst acc, snd acc + 1)
          else acc)"

fun contarEstados :: "muestra_con_clasificaciones list \<Rightarrow> nat \<times> nat \<Rightarrow> nat \<times> nat" where
  "contarEstados [] acc = acc"
| "contarEstados (muestra # resto) acc = contarEstados resto (contarMuestra muestra acc)"

definition nuevoEstado :: "muestra_con_clasificaciones list \<Rightarrow> string" where
  "nuevoEstado muestrasConClasificaciones =
     (let totalMuestras = length muestrasConClasificaciones;
          (completadas, enProceso) = contarEstados muestrasConClasificaciones (0, 0)
      in if totalMuestras > 0 \<and> completadas = totalMuestras then ''completo''
         else if enProceso > 0 then ''en_proceso''
         else ''recibido'')"

subsection \<open>The counts as the specification words them\<close>

text \<open>
  The classification state of a sample is the state of its classification record, and a
  sample with no record has none.
\<close>

definition estado_clasificacion :: "muestra_con_clasificaciones \<Rightarrow> string option" where
  "estado_clasificacion muestra =
     (case mc_clasificacion_herbario muestra of
        None \<Rightarrow> None
      | Some [] \<Rightarrow> None
      | Some (estado # _) \<Rightarrow> Some estado)"

definition es_completada :: "muestra_con_clasificaciones \<Rightarrow> bool" where
  "es_completada muestra =
     (estado_clasificacion muestra = Some ''completado''
      \<or> estado_clasificacion muestra = Some ''firmado''
      \<or> estado_clasificacion muestra = Some ''clasificado'')"

definition es_en_proceso :: "muestra_con_clasificaciones \<Rightarrow> bool" where
  "es_en_proceso muestra =
     (estado_clasificacion muestra = Some ''en_analisis''
      \<or> estado_clasificacion muestra = Some ''borrador'')"

definition spec_total :: "muestra_con_clasificaciones list \<Rightarrow> nat" where
  "spec_total ms = length ms"

definition spec_completed :: "muestra_con_clasificaciones list \<Rightarrow> nat" where
  "spec_completed ms = length (filter es_completada ms)"

definition spec_inProgress :: "muestra_con_clasificaciones list \<Rightarrow> nat" where
  "spec_inProgress ms = length (filter es_en_proceso ms)"

definition spec_estado :: "muestra_con_clasificaciones list \<Rightarrow> string" where
  "spec_estado ms =
     (if spec_total ms > 0 \<and> spec_completed ms = spec_total ms then ''completo''
      else if spec_inProgress ms > 0 then ''en_proceso''
      else ''recibido'')"

section \<open>Gest\_Herb\_service: the data store and the recompute\<close>

text \<open>
  The service talks to Postgres through the Supabase client. The tables it touches here
  are lists of rows; the nullable columns are options.
\<close>

record muestra_botanica_fila =
  mb_id :: int
  mb_id_paquete :: "int option"

record clasificacion_fila =
  cl_id :: int
  cl_id_muestra :: int
  cl_estado :: string
  cl_id_especie :: "int option"
  cl_estado_reproductivo :: "string option"

record paquete_fila =
  pq_id :: int
  pq_estado :: string

text \<open>
  A client call resolves to \<^verbatim>\<open>{ data, error }\<close> or throws. The error object carries
  the \<^verbatim>\<open>code\<close> and \<^verbatim>\<open>message\<close> the handlers read.
\<close>

record pg_error =
  pe_code :: string
  pe_message :: string

datatype 'a resultado =
  Resultado (data: "'a option") (error: "pg_error option")
| Excepcion string

text \<open>
  The calls the modelled code makes, one name per call site's query. What the store
  answers beyond the rows it holds (a lost connection, a rejected statement, a thrown
  exception) is outside the repository's JavaScript, so each world carries it as
  \<open>fallos\<close>: the fault, if any, that a call of that kind meets. The domain of the
  \<^verbatim>\<open>estado\<close> column of \<^verbatim>\<open>clasificacion_herbario\<close> (an enum of the database,
  according to the comment in Servicios/Lab\_Service/src/dto.js; its declaration is not in
  the repository) is the parameter \<open>dominio_estado\<close>.
\<close>

datatype operacion =
  BuscarPaqueteDeMuestra
| ObtenerMuestrasDePaquete
| ActualizarPaquete
| BuscarClasificacionDeMuestra
| ActualizarClasificacion
| InsertarClasificacion
| BuscarMuestraDeClasificacion

datatype fallo = DevuelveError pg_error | Lanza string

datatype nivel = Debug | Info | Warn | Error

record mundo =
  muestra_botanica :: "muestra_botanica_fila list"
  clasificacion_herbario :: "clasificacion_fila list"
  paquete :: "paquete_fila list"
  dominio_estado :: "string \<Rightarrow> bool"
  fallos :: "operacion \<Rightarrow> fallo option"
  escrituras_paquete :: "(int \<times> string) list"
  bitacora :: "(nivel \<times> string \<times> string option) list"

text \<open>
  \<open>escrituras_paquete\<close> records every \<^verbatim>\<open>update\<close> the store executes on
  \<^verbatim>\<open>paquete\<close> (package id and state written), \<open>bitacora\<close> every logger call: its
  level, the literal text of the message (interpolated values and pictographs are left
  out) and, where the call passes an error or its \<^verbatim>\<open>message\<close> as second argument, that
  message. \<open>registrar\<close> is a call with no error, \<open>registrar_con\<close> one with the
  \<^verbatim>\<open>message\<close> it was given (none for \<^verbatim>\<open>undefined\<close>).
\<close>

definition registrar_con :: "nivel \<Rightarrow> string \<Rightarrow> string option \<Rightarrow> mundo \<Rightarrow> mundo" where
  "registrar_con n texto detalle w = w\<lparr>bitacora := bitacora w @ [(n, texto, detalle)]\<rparr>"

definition registrar :: "nivel \<Rightarrow> string \<Rightarrow> mundo \<Rightarrow> mundo" where
  "registrar n texto w = w\<lparr>bitacora := bitacora w @ [(n, texto, None)]\<rparr>"





definition fallo_como_resultado :: "fallo \<Rightarrow> 'a resultado" where
  "fallo_como_resultado f =
     (case f of DevuelveError e \<Rightarrow> Resultado None (Some e) | Lanza msg \<Rightarrow> Excepcion msg)"

text \<open>
  \<^verbatim>\<open>.single()\<close>: exactly one row is the data; none or several is the error
  \<^verbatim>\<open>PGRST116\<close> with null data.
\<close>

definition error_PGRST116 :: pg_error where
  "error_PGRST116 =
     \<lparr>pe_code = ''PGRST116'', pe_message = ''JSON object requested, multiple (or no) rows returned''\<rparr>"

definition single :: "'a list \<Rightarrow> 'a resultado" where
  "single filas = (case filas of [fila] \<Rightarrow> Resultado (Some fila) None
                               | _ \<Rightarrow> Resultado None (Some error_PGRST116))"

definition error_dominio :: pg_error where
  "error_dominio = \<lparr>pe_code = ''22P02'', pe_message = ''invalid input value for enum''\<rparr>"

text \<open>
  \<^verbatim>\<open>from('muestra_botanica').select('id_paquete').eq('id', idMuestra).single()\<close>;
  the data is the object's one field.
\<close>

definition buscarPaqueteDeMuestra :: "int \<Rightarrow> mundo \<Rightarrow> (int option) resultado" where
  "buscarPaqueteDeMuestra idMuestra w =
     (case fallos w BuscarPaqueteDeMuestra of
        Some f \<Rightarrow> fallo_como_resultado f
      | None \<Rightarrow> single (map mb_id_paquete
                  (filter (\<lambda>m. mb_id m = idMuestra) (muestra_botanica w))))"

text \<open>
  \<^verbatim>\<open>from('muestra_botanica').select('id, clasificacion_herbario!left(estado)').eq('id_paquete', idPaquete)\<close>:
  every sample of the package with the array of its classification rows.
\<close>

definition embebidas :: "mundo \<Rightarrow> muestra_botanica_fila \<Rightarrow> muestra_con_clasificaciones" where
  "embebidas w m =
     \<lparr>mc_id = mb_id m,
      mc_clasificacion_herbario =
        Some (map cl_estado (filter (\<lambda>c. cl_id_muestra c = mb_id m) (clasificacion_herbario w)))\<rparr>"

definition muestrasDePaquete :: "mundo \<Rightarrow> int \<Rightarrow> muestra_con_clasificaciones list" where
  "muestrasDePaquete w idPaquete =
     map (embebidas w) (filter (\<lambda>m. mb_id_paquete m = Some idPaquete) (muestra_botanica w))"

definition obtenerMuestrasDePaquete ::
  "int \<Rightarrow> mundo \<Rightarrow> (muestra_con_clasificaciones list) resultado" where
  "obtenerMuestrasDePaquete idPaquete w =
     (case fallos w ObtenerMuestrasDePaquete of
        Some f \<Rightarrow> fallo_como_resultado f
      | None \<Rightarrow> Resultado (Some (muestrasDePaquete w idPaquete)) None)"

text \<open>\<^verbatim>\<open>from('paquete').update({ estado }).eq('id', idPaquete)\<close>.\<close>

definition actualizarPaquete :: "int \<Rightarrow> string \<Rightarrow> mundo \<Rightarrow> unit resultado \<times> mundo" where
  "actualizarPaquete idPaquete estado w =
     (case fallos w ActualizarPaquete of
        Some f \<Rightarrow> (fallo_como_resultado f, w)
      | None \<Rightarrow>
          (Resultado None None,
           w\<lparr>paquete := map (\<lambda>p. if pq_id p = idPaquete then p\<lparr>pq_estado := estado\<rparr> else p)
                          (paquete w),
             escrituras_paquete := escrituras_paquete w @ [(idPaquete, estado)]\<rparr>))"

text \<open>
  An asynchronous function returns a promise: fulfilled, or rejected with the thrown
  error's message.
\<close>

datatype promesa = Cumplida | Rechazada string

text \<open>
  \<^verbatim>\<open>actualizarEstadoPaqueteManual(idMuestra)\<close>. The whole body is inside
  \<^verbatim>\<open>try { ... } catch (err) { logger.warn(..., err.message) }\<close>; a thrown value is an
  \<^verbatim>\<open>Error\<close> with a message. \<^verbatim>\<open>!muestra.id_paquete\<close> holds for null and for 0. The
  first guard joins a lookup that returned an error, a missing row and a null package in
  one branch, whose only logger call is at level debug and passes no error.
\<close>

definition capturado :: "string \<Rightarrow> mundo \<Rightarrow> promesa \<times> mundo" where
  "capturado msg w =
     (Cumplida, registrar_con Warn ''Error en actualizarEstadoPaqueteManual:'' (Some msg) w)"

definition recalcularPaquete :: "int \<Rightarrow> mundo \<Rightarrow> promesa \<times> mundo" where
  "recalcularPaquete idPaquete w =
     (case obtenerMuestrasDePaquete idPaquete w of
        Excepcion msg \<Rightarrow> capturado msg w
      | Resultado muestrasConClasificaciones errorMuestras \<Rightarrow>
          (case (errorMuestras, muestrasConClasificaciones) of
             (None, Some ms) \<Rightarrow>
               (case actualizarPaquete idPaquete (nuevoEstado ms) w of
                  (Excepcion msg, w') \<Rightarrow> capturado msg w'
                | (Resultado _ (Some errorActualizacion), w') \<Rightarrow>
                    (Cumplida,
                     registrar_con Warn ''Error actualizando paquete:''
                       (Some (pe_message errorActualizacion)) w')
                | (Resultado _ None, w') \<Rightarrow>
                    (Cumplida, registrar Debug ''Paquete actualizado'' w'))
           | _ \<Rightarrow>
               (Cumplida,
                registrar_con Warn ''Error obteniendo muestras:''
                  (map_option pe_message errorMuestras) w)))"

definition actualizarEstadoPaqueteManual :: "int \<Rightarrow> mundo \<Rightarrow> promesa \<times> mundo" where
  "actualizarEstadoPaqueteManual idMuestra w =
     (case buscarPaqueteDeMuestra idMuestra w of
        Excepcion msg \<Rightarrow> capturado msg w
      | Resultado muestra errorMuestra \<Rightarrow>
          (case (errorMuestra, muestra) of
             (None, Some (Some idPaquete)) \<Rightarrow>
               if idPaquete = 0
               then (Cumplida, registrar Debug ''Muestra sin paquete o no encontrada'' w)
               else recalcularPaquete idPaquete w
           | _ \<Rightarrow> (Cumplida, registrar Debug ''Muestra sin paquete o no encontrada'' w)))"

section \<open>Gest\_Herb\_service: the two state-update endpoints\<close>

text \<open>
  The remaining client calls, on \<^verbatim>\<open>clasificacion_herbario\<close>. A statement whose
  \<^verbatim>\<open>estado\<close> is outside the column's domain is rejected by the store. A mutation that
  asks for \<^verbatim>\<open>.single()\<close> and does not touch exactly one row fails with
  \<^verbatim>\<open>PGRST116\<close> and changes nothing.
\<close>

definition buscarClasificacionDeMuestra :: "int \<Rightarrow> mundo \<Rightarrow> clasificacion_fila resultado" where
  "buscarClasificacionDeMuestra idMuestraNum w =
     (case fallos w BuscarClasificacionDeMuestra of
        Some f \<Rightarrow> fallo_como_resultado f
      | None \<Rightarrow> single (filter (\<lambda>c. cl_id_muestra c = idMuestraNum) (clasificacion_herbario w)))"

definition poner_estado :: "int \<Rightarrow> string \<Rightarrow> clasificacion_fila \<Rightarrow> clasificacion_fila" where
  "poner_estado i estado c = (if cl_id c = i then c\<lparr>cl_estado := estado\<rparr> else c)"

definition actualizarEstadoUnico ::
  "int \<Rightarrow> string \<Rightarrow> mundo \<Rightarrow> clasificacion_fila resultado \<times> mundo" where
  "actualizarEstadoUnico i estado w =
     (case fallos w ActualizarClasificacion of
        Some f \<Rightarrow> (fallo_como_resultado f, w)
      | None \<Rightarrow>
          if \<not> dominio_estado w estado then (Resultado None (Some error_dominio), w)
          else (case filter (\<lambda>c. cl_id c = i) (clasificacion_herbario w) of
                  [fila] \<Rightarrow>
                    (Resultado (Some (fila\<lparr>cl_estado := estado\<rparr>)) None,
                     w\<lparr>clasificacion_herbario :=
                         map (poner_estado i estado) (clasificacion_herbario w)\<rparr>)
                | _ \<Rightarrow> (Resultado None (Some error_PGRST116), w)))"

definition actualizarEstadoPorId :: "int \<Rightarrow> string \<Rightarrow> mundo \<Rightarrow> unit resultado \<times> mundo" where
  "actualizarEstadoPorId i estado w =
     (case fallos w ActualizarClasificacion of
        Some f \<Rightarrow> (fallo_como_resultado f, w)
      | None \<Rightarrow>
          if \<not> dominio_estado w estado then (Resultado None (Some error_dominio), w)
          else (Resultado None None,
                w\<lparr>clasificacion_herbario :=
                    map (poner_estado i estado) (clasificacion_herbario w)\<rparr>))"

text \<open>The store numbers a new row after the largest id in the table.\<close>

definition siguiente_id :: "clasificacion_fila list \<Rightarrow> int" where
  "siguiente_id filas = fold max (map cl_id filas) 0 + 1"

definition insertarClasificacion ::
  "int \<Rightarrow> string \<Rightarrow> mundo \<Rightarrow> clasificacion_fila resultado \<times> mundo" where
  "insertarClasificacion idMuestraNum estado w =
     (case fallos w InsertarClasificacion of
        Some f \<Rightarrow> (fallo_como_resultado f, w)
      | None \<Rightarrow>
          if \<not> dominio_estado w estado then (Resultado None (Some error_dominio), w)
          else (let fila = \<lparr>cl_id = siguiente_id (clasificacion_herbario w),
                            cl_id_muestra = idMuestraNum,
                            cl_estado = estado,
                            cl_id_especie = None,
                            cl_estado_reproductivo = None\<rparr>
                in (Resultado (Some fila) None,
                    w\<lparr>clasificacion_herbario := clasificacion_herbario w @ [fila]\<rparr>)))"

definition buscarMuestraDeClasificacion :: "int \<Rightarrow> mundo \<Rightarrow> int resultado" where
  "buscarMuestraDeClasificacion i w =
     (case fallos w BuscarMuestraDeClasificacion of
        Some f \<Rightarrow> fallo_como_resultado f
      | None \<Rightarrow> single (map cl_id_muestra
                  (filter (\<lambda>c. cl_id c = i) (clasificacion_herbario w))))"

text \<open>
  The JSON bodies the two handlers send: \<^verbatim>\<open>{ error, details }\<close> and
  \<^verbatim>\<open>{ id, estado, message }\<close>.
\<close>

datatype cuerpo =
  CuerpoError string "string option"
| CuerpoEstado int string string

record respuesta_http =
  status :: nat
  cuerpo :: cuerpo

text \<open>
  \<^verbatim>\<open>actualizarEstadoPaqueteManual(id).catch(err => logger.warn(...))\<close>: the call is not
  awaited, its promise is dropped, a rejection is logged. The model runs it to its end
  before the handler goes on.
\<close>

definition enSegundoPlano :: "int \<Rightarrow> mundo \<Rightarrow> mundo" where
  "enSegundoPlano idMuestra w =
     (case actualizarEstadoPaqueteManual idMuestra w of
        (Cumplida, w') \<Rightarrow> w'
      | (Rechazada msg, w') \<Rightarrow>
          registrar_con Warn
            (''Error en actualizaci'' @ [CHR 0xF3] @ ''n de paquete (background):'') (Some msg) w')"

text \<open>\<^verbatim>\<open>!estado\<close> on the body's field: absent (or null) and the empty string.\<close>

definition sin_estado :: "string option \<Rightarrow> bool" where
  "sin_estado estado = (case estado of None \<Rightarrow> True | Some e \<Rightarrow> e = [])"

definition estado_requerido :: respuesta_http where
  "estado_requerido = \<lparr>status = 400, cuerpo = CuerpoError ''Estado es requerido'' None\<rparr>"

text \<open>The handlers' outer \<^verbatim>\<open>catch (err)\<close>.\<close>

definition error_interno :: "string \<Rightarrow> string \<Rightarrow> mundo \<Rightarrow> respuesta_http \<times> mundo" where
  "error_interno ruta msg w =
     (\<lparr>status = 500, cuerpo = CuerpoError ''Error interno del servidor'' (Some msg)\<rparr>,
      registrar_con Error ruta (Some msg) w)"

definition texto_TypeError :: string where
  "texto_TypeError = ''Cannot read properties of null''"

text \<open>
  \<^verbatim>\<open>app.put('/clasificaciones/:idMuestra/estado', ...)\<close>. \<open>idMuestraNum\<close> is the value of
  \<^verbatim>\<open>parseInt(idMuestra, 10)\<close>, \<open>None\<close> for \<^verbatim>\<open>NaN\<close>; \<open>estado\<close> is the body's field.
\<close>

definition ruta_idMuestra :: string where
  "ruta_idMuestra = ''Error en PUT /clasificaciones/:idMuestra/estado:''"

definition ramaActualizar :: "clasificacion_fila \<Rightarrow> string \<Rightarrow> mundo \<Rightarrow> respuesta_http \<times> mundo" where
  "ramaActualizar existing estado w =
     (case actualizarEstadoUnico (cl_id existing) estado
             (registrar Info (''Clasificaci'' @ [CHR 0xF3] @ ''n existente encontrada'') w) of
        (Excepcion msg, w') \<Rightarrow> error_interno ruta_idMuestra msg w'
      | (Resultado _ (Some e), w') \<Rightarrow>
          (\<lparr>status = 500, cuerpo = CuerpoError ''Error actualizando estado'' (Some (pe_message e))\<rparr>,
           registrar_con Error ''Error actualizando estado:'' (Some (pe_message e)) w')
      | (Resultado None None, w') \<Rightarrow> error_interno ruta_idMuestra texto_TypeError w'
      | (Resultado (Some fila) None, w') \<Rightarrow>
          (\<lparr>status = 200, cuerpo = CuerpoEstado (cl_id fila) estado ''Estado actualizado''\<rparr>,
           registrar Info ''Estado actualizado correctamente'' (enSegundoPlano (cl_id_muestra fila) w')))"

definition ramaInsertar :: "int \<Rightarrow> string \<Rightarrow> mundo \<Rightarrow> respuesta_http \<times> mundo" where
  "ramaInsertar idMuestraNum estado w =
     (case insertarClasificacion idMuestraNum estado
             (registrar Info (''No existe clasificaci'' @ [CHR 0xF3] @ ''n previa. Creando nueva'') w) of
        (Excepcion msg, w') \<Rightarrow> error_interno ruta_idMuestra msg w'
      | (Resultado _ (Some e), w') \<Rightarrow>
          (\<lparr>status = 500,
            cuerpo = CuerpoError (''Error creando clasificaci'' @ [CHR 0xF3] @ ''n'') (Some (pe_message e))\<rparr>,
           registrar_con Error (''Error creando clasificaci'' @ [CHR 0xF3] @ ''n con estado:'')
             (Some (pe_message e)) w')
      | (Resultado None None, w') \<Rightarrow> error_interno ruta_idMuestra texto_TypeError w'
      | (Resultado (Some fila) None, w') \<Rightarrow>
          (\<lparr>status = 201,
            cuerpo = CuerpoEstado (cl_id fila) estado (''Clasificaci'' @ [CHR 0xF3] @ ''n creada'')\<rparr>,
           registrar Info (''Clasificaci'' @ [CHR 0xF3] @ ''n creada correctamente'')
             (enSegundoPlano (cl_id_muestra fila) w')))"

definition put_clasificaciones_idMuestra_estado ::
  "int option \<Rightarrow> string option \<Rightarrow> mundo \<Rightarrow> respuesta_http \<times> mundo" where
  "put_clasificaciones_idMuestra_estado idMuestraNum estado w =
     (case idMuestraNum of
        None \<Rightarrow>
          (\<lparr>status = 400,
            cuerpo = CuerpoError (''ID de muestra inv'' @ [CHR 0xE1] @ ''lido'') None\<rparr>, w)
      | Some n \<Rightarrow>
          if sin_estado estado then (estado_requerido, w)
          else (let e = the estado;
                    w1 = registrar Info ''Actualizando estado de muestra'' w
                in case buscarClasificacionDeMuestra n w1 of
                     Excepcion msg \<Rightarrow> error_interno ruta_idMuestra msg w1
                   | Resultado existing findError \<Rightarrow>
                       (case findError of
                          Some fe \<Rightarrow>
                            if pe_code fe \<noteq> ''PGRST116''
                            then (\<lparr>status = 500,
                                   cuerpo = CuerpoError (''Error buscando clasificaci'' @ [CHR 0xF3] @ ''n'')
                                              (Some (pe_message fe))\<rparr>,
                                  registrar_con Error
                                    (''Error buscando clasificaci'' @ [CHR 0xF3] @ ''n:'')
                                    (Some (pe_message fe)) w1)
                            else (case existing of
                                    Some ex \<Rightarrow> ramaActualizar ex e w1
                                  | None \<Rightarrow> ramaInsertar n e w1)
                        | None \<Rightarrow>
                            (case existing of
                               Some ex \<Rightarrow> ramaActualizar ex e w1
                             | None \<Rightarrow> ramaInsertar n e w1))))"

text \<open>
  \<^verbatim>\<open>app.put('/clasificaciones/id/:id/estado', ...)\<close>. The route parameter is handed to
  the store as it is and compared there with the \<^verbatim>\<open>id\<close> column; the model takes the
  number it denotes. The error of the second query is never read.
\<close>

definition ruta_id :: string where
  "ruta_id = ''Error en PUT /clasificaciones/id/:id/estado:''"

definition put_clasificaciones_id_estado ::
  "int \<Rightarrow> string option \<Rightarrow> mundo \<Rightarrow> respuesta_http \<times> mundo" where
  "put_clasificaciones_id_estado i estado w =
     (if sin_estado estado then (estado_requerido, w)
      else (let e = the estado;
                w1 = registrar Debug (''Actualizando clasificaci'' @ [CHR 0xF3] @ ''n'') w
            in case actualizarEstadoPorId i e w1 of
                 (Excepcion msg, w2) \<Rightarrow> error_interno ruta_id msg w2
               | (Resultado _ (Some err), w2) \<Rightarrow>
                   (\<lparr>status = 500,
                     cuerpo = CuerpoError (''Error actualizando clasificaci'' @ [CHR 0xF3] @ ''n'')
                                (Some (pe_message err))\<rparr>,
                    registrar_con Error (''Error actualizando clasificaci'' @ [CHR 0xF3] @ ''n:'')
                      (Some (pe_message err)) w2)
               | (Resultado _ None, w2) \<Rightarrow>
                   (case buscarMuestraDeClasificacion i w2 of
                      Excepcion msg \<Rightarrow> error_interno ruta_id msg w2
                    | Resultado clasificacion errorBusqueda \<Rightarrow>
                        (\<lparr>status = 200, cuerpo = CuerpoEstado i e ''Estado actualizado''\<rparr>,
                         registrar Debug (''Clasificaci'' @ [CHR 0xF3] @ ''n actualizada'')
                           (case clasificacion of
                              Some idMuestra \<Rightarrow>
                                if idMuestra \<noteq> 0 then enSegundoPlano idMuestra w2 else w2
                            | None \<Rightarrow> w2)))))"

section \<open>Lab\_Service: numbers, strings and maps of the statistics handlers\<close>

subsection \<open>\<^verbatim>\<open>Math.round((count / total) * 100)\<close> on doubles\<close>

text \<open>
  The handlers divide two array lengths, multiply by 100 and round, all in IEEE 754
  doubles. The quotient of two integers is rarely a double, and the rounded quotient
  times 100 can fall just below a half that exact arithmetic would reach (29 of 200 gives
  14, not 15), so the arithmetic is modelled as it is: a non-negative finite double is a
  pair \<open>(m, e)\<close> standing for \<open>m * 2^e\<close>, and \<open>redondeo n d\<close> is the double nearest to
  \<open>n / d\<close>, ties to the even mantissa. The operands are lengths of arrays, so the results
  are normal doubles; subnormals and overflow do not arise.
\<close>

fun longitud_bits :: "nat \<Rightarrow> nat" where
  "longitud_bits n = (if n = 0 then 0 else Suc (longitud_bits (n div 2)))"

declare longitud_bits.simps [simp del]

type_synonym doble = "nat \<times> int"

definition escala :: "int \<Rightarrow> nat \<Rightarrow> nat \<Rightarrow> nat \<times> nat" where
  "escala e n d = (n * 2 ^ nat (- e), d * 2 ^ nat e)"

definition redondeo :: "nat \<Rightarrow> nat \<Rightarrow> doble" where
  "redondeo n d =
     (if n = 0 then (0, 0)
      else (let e0 = int (longitud_bits n) - int (longitud_bits d) - 53;
                e = (if fst (escala e0 n d) div snd (escala e0 n d) < 2 ^ 53 then e0 else e0 + 1);
                q = fst (escala e n d) div snd (escala e n d);
                r = fst (escala e n d) mod snd (escala e n d)
            in (if 2 * r < snd (escala e n d) then q
                else if 2 * r > snd (escala e n d) then q + 1
                else if even q then q else q + 1,
                e)))"

definition por_cien :: "doble \<Rightarrow> doble" where
  "por_cien x = redondeo (100 * fst x * 2 ^ nat (snd x)) (2 ^ nat (- snd x))"

text \<open>\<^verbatim>\<open>Math.round\<close>: the integer nearest to the double, a half going up.\<close>

definition math_round :: "doble \<Rightarrow> nat" where
  "math_round x =
     (if snd x \<ge> 0 then fst x * 2 ^ nat (snd x)
      else (2 * fst x + 2 ^ nat (- snd x)) div 2 ^ (nat (- snd x) + 1))"

text \<open>
  \<^verbatim>\<open>parseFloat(x.toFixed(1))\<close>: the number of tenths nearest to the double, a half going
  up; the value sent is that many tenths.
\<close>

definition decimas :: "doble \<Rightarrow> nat" where
  "decimas x =
     (if snd x \<ge> 0 then 10 * fst x * 2 ^ nat (snd x)
      else (20 * fst x + 2 ^ nat (- snd x)) div 2 ^ (nat (- snd x) + 1))"

text \<open>\<^verbatim>\<open>total > 0 ? Math.round((count / total) * 100) : 0\<close>.\<close>

definition porcentaje :: "nat \<Rightarrow> nat \<Rightarrow> nat" where
  "porcentaje count tot =
     (if tot > 0 then math_round (por_cien (redondeo count tot)) else 0)"

text \<open>\<^verbatim>\<open>n > 0 ? parseFloat(((count / n) * 100).toFixed(1)) : 0\<close>, in tenths.\<close>

definition porcentaje_decimas :: "nat \<Rightarrow> nat \<Rightarrow> nat" where
  "porcentaje_decimas count n =
     (if n > 0 then decimas (por_cien (redondeo count n)) else 0)"

subsection \<open>\<^verbatim>\<open>normalizarRegion\<close>\<close>

text \<open>
  \<^verbatim>\<open>nombre.replace(/^Regi\u00f3n\s+/i, '').trim()\<close>, and null for a null or empty name. A
  string is the list of its code units, here those below 256: the accented letters of the
  region names are \<open>CHR 0xF3\<close> (and \<open>CHR 0xD3\<close> in upper case), \<open>CHR 0xED\<close>. The
  white space of \<^verbatim>\<open>\s\<close> and of \<^verbatim>\<open>trim\<close> in that range is tab, line feed, vertical tab,
  form feed, carriage return, space and the no-break space.
\<close>

definition es_espacio :: "char \<Rightarrow> bool" where
  "es_espacio c = (c \<in> set [CHR 0x09, CHR 0x0A, CHR 0x0B, CHR 0x0C, CHR 0x0D, CHR 0x20, CHR 0xA0])"

definition trim :: "string \<Rightarrow> string" where
  "trim s = rev (dropWhile es_espacio (rev (dropWhile es_espacio s)))"

text \<open>The six letters of the pattern, each with the other case the flag \<^verbatim>\<open>i\<close> admits.\<close>

definition letras_region :: "(char \<times> char) list" where
  "letras_region =
     [(CHR ''R'', CHR ''r''), (CHR ''e'', CHR ''E''), (CHR ''g'', CHR ''G''),
      (CHR ''i'', CHR ''I''), (CHR 0xF3, CHR 0xD3), (CHR ''n'', CHR ''N'')]"

definition empieza_por_region :: "string \<Rightarrow> bool" where
  "empieza_por_region s =
     (length s > 6
      \<and> list_all2 (\<lambda>c p. c = fst p \<or> c = snd p) (take 6 s) letras_region
      \<and> es_espacio (s ! 6))"

definition quitar_prefijo :: "string \<Rightarrow> string" where
  "quitar_prefijo s = (if empieza_por_region s then dropWhile es_espacio (drop 6 s) else s)"

definition normalizarRegion :: "string option \<Rightarrow> string option" where
  "normalizarRegion nombre =
     (case nombre of
        None \<Rightarrow> None
      | Some s \<Rightarrow> if s = [] then None else Some (trim (quitar_prefijo s)))"

text \<open>The template that puts \<^verbatim>\<open>Regi\u00f3n\<close> and a space before the name.\<close>

definition con_prefijo :: "string \<Rightarrow> string" where
  "con_prefijo nombre = ''Regi'' @ [CHR 0xF3] @ ''n '' @ nombre"

definition regionesBase :: "string list" where
  "regionesBase =
     [''Andina'', ''Caribe'', ''Pac'' @ [CHR 0xED] @ ''fica'',
      ''Orinoqu'' @ [CHR 0xED] @ ''a'', ''Amazon'' @ [CHR 0xED] @ ''a'']"

subsection \<open>\<^verbatim>\<open>Map\<close> and \<^verbatim>\<open>Set\<close>\<close>

text \<open>
  A \<^verbatim>\<open>Map\<close> keeps its keys in the order of their first insertion, and the handlers
  read that order (\<^verbatim>\<open>Array.from(map.entries())\<close>): it is an association list, read with
  \<open>map_of\<close>. A \<^verbatim>\<open>Set\<close> of strings is the list of its members without repetition.
\<close>

fun mapa_set :: "('k \<times> 'v) list \<Rightarrow> 'k \<Rightarrow> 'v \<Rightarrow> ('k \<times> 'v) list" where
  "mapa_set [] k v = [(k, v)]"
| "mapa_set (p # m) k v = (if fst p = k then (k, v) # m else p # mapa_set m k v)"

definition set_add :: "'a list \<Rightarrow> 'a \<Rightarrow> 'a list" where
  "set_add xs x = (if x \<in> set xs then xs else xs @ [x])"

text \<open>
  \<^verbatim>\<open>.sort((a, b) => b.count - a.count)\<close>: a stable sort, the larger count first.
\<close>

definition ordenar_desc :: "('a \<Rightarrow> nat) \<Rightarrow> 'a list \<Rightarrow> 'a list" where
  "ordenar_desc f xs = sort_key (\<lambda>x. - int (f x)) xs"

section \<open>Lab\_Service: the rows the statistics handlers read\<close>

text \<open>
  Both handlers select rows with their relations embedded. A missing relation is null, so
  every embedded object is an option; the names the code tests for truth before using
  them (\<^verbatim>\<open>especie.nombre\<close>, the family and genus names, \<^verbatim>\<open>tipo_amenaza\<close>) are
  options too.
\<close>

record familia =
  fa_nombre :: "string option"

record genero =
  ge_nombre :: "string option"
  ge_familia :: "familia option"

record especie =
  es_nombre :: "string option"
  es_tipo_amenaza :: "string option"
  es_genero :: "genero option"

record region =
  re_nombre :: string

record departamento =
  de_nombre :: string
  de_region :: "region option"

record municipio =
  mu_departamento :: "departamento option"

record conglomerado =
  co_municipio :: "municipio option"

record paquete_geo =
  pg_conglomerado :: "conglomerado option"

record clasificacion_tax =
  ct_id :: int
  ct_id_muestra :: int
  ct_id_especie :: "int option"
  ct_estado :: string
  ct_especie :: "especie option"

record muestra_geo =
  mg_id :: int
  mg_paquete :: "paquete_geo option"

text \<open>A string in a condition: null and the empty string are false.\<close>

definition verdadero :: "string option \<Rightarrow> bool" where
  "verdadero s = (case s of None \<Rightarrow> False | Some t \<Rightarrow> t \<noteq> [])"

text \<open>\<^verbatim>\<open>muestra.paquete?.conglomerado?.municipio?.departamento\<close>.\<close>

definition departamentoDe :: "paquete_geo option \<Rightarrow> departamento option" where
  "departamentoDe paq =
     Option.bind (Option.bind (Option.bind paq pg_conglomerado) co_municipio) mu_departamento"

text \<open>\<^verbatim>\<open>especie.genero?.familia?.nombre\<close> and \<^verbatim>\<open>especie.genero?.nombre\<close>.\<close>

definition nombreFamilia :: "especie \<Rightarrow> string option" where
  "nombreFamilia e = Option.bind (Option.bind (es_genero e) ge_familia) fa_nombre"

definition nombreGenero :: "especie \<Rightarrow> string option" where
  "nombreGenero e = Option.bind (es_genero e) ge_nombre"

section \<open>Lab\_Service: \<^verbatim>\<open>GET /estadisticas\<close>\<close>

record dept_data =
  dd_name :: string
  dd_specimens :: nat
  dd_species :: "string list"
  dd_region :: "string option"

record region_data =
  rd_name :: string
  rd_specimens :: nat
  rd_species :: "string list"
  rd_families :: "string list"
  rd_departments :: "string list"

text \<open>
  The first \<^verbatim>\<open>forEach\<close>, over the classified samples: one more specimen for the
  sample's department and for its region, each entered under its stored name on first
  sight. The region hangs from the department, so a sample with a region has a department.
\<close>

definition contarEnDept ::
  "departamento \<Rightarrow> (string \<times> dept_data) list \<Rightarrow> (string \<times> dept_data) list" where
  "contarEnDept dept departamentosMap =
     (case map_of departamentosMap (de_nombre dept) of
        None \<Rightarrow>
          mapa_set departamentosMap (de_nombre dept)
            \<lparr>dd_name = de_nombre dept, dd_specimens = 1, dd_species = [],
             dd_region = map_option re_nombre (de_region dept)\<rparr>
      | Some deptData \<Rightarrow>
          mapa_set departamentosMap (de_nombre dept)
            (deptData\<lparr>dd_specimens := dd_specimens deptData + 1\<rparr>))"

definition contarEnRegion ::
  "departamento \<Rightarrow> region \<Rightarrow> (string \<times> region_data) list \<Rightarrow> (string \<times> region_data) list" where
  "contarEnRegion dept reg regionesMap =
     (case map_of regionesMap (re_nombre reg) of
        None \<Rightarrow>
          mapa_set regionesMap (re_nombre reg)
            \<lparr>rd_name = re_nombre reg, rd_specimens = 1, rd_species = [], rd_families = [],
             rd_departments = [de_nombre dept]\<rparr>
      | Some regionData \<Rightarrow>
          mapa_set regionesMap (re_nombre reg)
            (regionData\<lparr>rd_specimens := rd_specimens regionData + 1,
                        rd_departments := set_add (rd_departments regionData) (de_nombre dept)\<rparr>))"

definition contarMuestraGeo ::
  "muestra_geo \<Rightarrow> (string \<times> dept_data) list \<times> (string \<times> region_data) list
     \<Rightarrow> (string \<times> dept_data) list \<times> (string \<times> region_data) list" where
  "contarMuestraGeo muestra mapas =
     (case departamentoDe (mg_paquete muestra) of
        None \<Rightarrow> mapas
      | Some dept \<Rightarrow>
          (contarEnDept dept (fst mapas),
           case de_region dept of
             None \<Rightarrow> snd mapas
           | Some reg \<Rightarrow> contarEnRegion dept reg (snd mapas)))"

text \<open>
  The second \<^verbatim>\<open>forEach\<close>, over the classifications with a species: the species name
  joins the sets of the department and the region of the first sample with that id, the
  family name the set of the region.
\<close>

definition anotarEnDept ::
  "departamento \<Rightarrow> especie \<Rightarrow> (string \<times> dept_data) list \<Rightarrow> (string \<times> dept_data) list" where
  "anotarEnDept dept esp departamentosMap =
     (case map_of departamentosMap (de_nombre dept) of
        None \<Rightarrow> departamentosMap
      | Some deptData \<Rightarrow>
          if verdadero (es_nombre esp)
          then mapa_set departamentosMap (de_nombre dept)
                 (deptData\<lparr>dd_species := set_add (dd_species deptData) (the (es_nombre esp))\<rparr>)
          else departamentosMap)"

definition anotarEnRegion ::
  "region \<Rightarrow> especie \<Rightarrow> (string \<times> region_data) list \<Rightarrow> (string \<times> region_data) list" where
  "anotarEnRegion reg esp regionesMap =
     (case map_of regionesMap (re_nombre reg) of
        None \<Rightarrow> regionesMap
      | Some regionData \<Rightarrow>
          mapa_set regionesMap (re_nombre reg)
            (regionData
               \<lparr>rd_species := (if verdadero (es_nombre esp)
                                then set_add (rd_species regionData) (the (es_nombre esp))
                                else rd_species regionData),
                rd_families := (if verdadero (nombreFamilia esp)
                                 then set_add (rd_families regionData) (the (nombreFamilia esp))
                                 else rd_families regionData)\<rparr>))"

definition anotarClasificacion ::
  "muestra_geo list \<Rightarrow> clasificacion_tax
     \<Rightarrow> (string \<times> dept_data) list \<times> (string \<times> region_data) list
     \<Rightarrow> (string \<times> dept_data) list \<times> (string \<times> region_data) list" where
  "anotarClasificacion muestrasClasificadas clasif mapas =
     (case (Option.bind (find (\<lambda>m. mg_id m = ct_id_muestra clasif) muestrasClasificadas)
              (\<lambda>m. departamentoDe (mg_paquete m)),
            ct_especie clasif) of
        (Some dept, Some esp) \<Rightarrow>
          (anotarEnDept dept esp (fst mapas),
           case de_region dept of
             None \<Rightarrow> snd mapas
           | Some reg \<Rightarrow> anotarEnRegion reg esp (snd mapas))
      | _ \<Rightarrow> mapas)"

text \<open>The objects of the response.\<close>

record dept_salida =
  ds_name :: string
  ds_specimens :: nat
  ds_species :: nat
  ds_percentage :: nat

record region_salida =
  rs_name :: string
  rs_departments :: nat
  rs_specimens :: nat
  rs_species :: nat
  rs_families :: nat
  rs_percentage :: nat

record amenaza_salida =
  am_categoria :: string
  am_count :: nat
  am_porcentaje_decimas :: nat

record resultado_estadisticas =
  departamentos :: "dept_salida list"
  regiones :: "region_salida list"
  total_especimenes :: nat
  total_clasificaciones :: nat
  especies_amenazadas :: "amenaza_salida list"

definition salidaDept :: "nat \<Rightarrow> dept_data \<Rightarrow> dept_salida" where
  "salidaDept totalMuestras d =
     \<lparr>ds_name = dd_name d, ds_specimens = dd_specimens d, ds_species = length (dd_species d),
      ds_percentage = porcentaje (dd_specimens d) totalMuestras\<rparr>"

text \<open>
  The lookup of a fixed region in the map: under the base name, else under the name with
  the prefix, else the first key that normalises to the base name.
\<close>

definition buscarRegion :: "(string \<times> region_data) list \<Rightarrow> string \<Rightarrow> region_data option" where
  "buscarRegion regionesMap nombreBase =
     (case map_of regionesMap nombreBase of
        Some d \<Rightarrow> Some d
      | None \<Rightarrow>
          (case map_of regionesMap (con_prefijo nombreBase) of
             Some d \<Rightarrow> Some d
           | None \<Rightarrow>
               map_option snd
                 (find (\<lambda>entrada. normalizarRegion (Some (fst entrada)) = Some nombreBase)
                    regionesMap)))"

definition salidaRegion ::
  "nat \<Rightarrow> (string \<times> region_data) list \<Rightarrow> string \<Rightarrow> region_salida" where
  "salidaRegion totalMuestras regionesMap nombreBase =
     (case buscarRegion regionesMap nombreBase of
        Some d \<Rightarrow>
          \<lparr>rs_name = nombreBase, rs_departments = length (rd_departments d),
           rs_specimens = rd_specimens d, rs_species = length (rd_species d),
           rs_families = length (rd_families d),
           rs_percentage = porcentaje (rd_specimens d) totalMuestras\<rparr>
      | None \<Rightarrow>
          \<lparr>rs_name = nombreBase, rs_departments = 0, rs_specimens = 0, rs_species = 0,
           rs_families = 0, rs_percentage = 0\<rparr>)"

text \<open>
  The threat categories: \<^verbatim>\<open>c.especie?.tipo_amenaza || 'No Amenazado'\<close>, counted in a
  map.
\<close>

definition tipoAmenaza :: "clasificacion_tax \<Rightarrow> string" where
  "tipoAmenaza c =
     (case Option.bind (ct_especie c) es_tipo_amenaza of
        None \<Rightarrow> ''No Amenazado''
      | Some t \<Rightarrow> if t = [] then ''No Amenazado'' else t)"

definition incrementar :: "string \<Rightarrow> (string \<times> nat) list \<Rightarrow> (string \<times> nat) list" where
  "incrementar k m = mapa_set m k (case map_of m k of None \<Rightarrow> 1 | Some n \<Rightarrow> n + 1)"

definition salidaAmenaza :: "nat \<Rightarrow> string \<times> nat \<Rightarrow> amenaza_salida" where
  "salidaAmenaza n entrada =
     \<lparr>am_categoria = fst entrada, am_count = snd entrada,
      am_porcentaje_decimas = porcentaje_decimas (snd entrada) n\<rparr>"

text \<open>
  The computation between the two queries and \<^verbatim>\<open>res.json(resultado)\<close>, on the rows the
  queries returned.
\<close>

definition clasificacionesConEspecie :: "clasificacion_tax list \<Rightarrow> clasificacion_tax list" where
  "clasificacionesConEspecie clasificaciones =
     filter (\<lambda>c. ct_id_especie c \<noteq> None \<and> ct_especie c \<noteq> None) clasificaciones"

definition muestrasClasificadas ::
  "muestra_geo list \<Rightarrow> clasificacion_tax list \<Rightarrow> muestra_geo list" where
  "muestrasClasificadas muestras clasificaciones =
     filter (\<lambda>m. mg_id m \<in> set (map ct_id_muestra (clasificacionesConEspecie clasificaciones)))
       muestras"

definition mapasGeo ::
  "muestra_geo list \<Rightarrow> clasificacion_tax list
     \<Rightarrow> (string \<times> dept_data) list \<times> (string \<times> region_data) list" where
  "mapasGeo muestras clasificaciones =
     fold (anotarClasificacion (muestrasClasificadas muestras clasificaciones))
       (clasificacionesConEspecie clasificaciones)
       (fold contarMuestraGeo (muestrasClasificadas muestras clasificaciones) ([], []))"

definition calcularEstadisticas ::
  "muestra_geo list \<Rightarrow> clasificacion_tax list \<Rightarrow> resultado_estadisticas" where
  "calcularEstadisticas muestras clasificaciones =
     (let conEspecie = clasificacionesConEspecie clasificaciones;
          totalMuestras = length (muestrasClasificadas muestras clasificaciones);
          mapas = mapasGeo muestras clasificaciones
      in \<lparr>departamentos =
             take 10 (ordenar_desc ds_specimens (map (salidaDept totalMuestras \<circ> snd) (fst mapas))),
           regiones = map (salidaRegion totalMuestras (snd mapas)) regionesBase,
           total_especimenes = totalMuestras,
           total_clasificaciones = length conEspecie,
           especies_amenazadas =
             ordenar_desc am_count
               (map (salidaAmenaza (length conEspecie))
                  (fold (\<lambda>c. incrementar (tipoAmenaza c)) conEspecie []))\<rparr>)"

text \<open>
  The store of the laboratory service: the samples with their geography, the
  classifications with their taxonomy, and the fault each query may meet. The three
  queries of the two handlers follow.
\<close>

datatype consulta = ConsultaMuestras | ConsultaClasificaciones | ConsultaTaxonomia

record laboratorio =
  lab_muestras :: "muestra_geo list"
  lab_clasificaciones :: "clasificacion_tax list"
  lab_fallos :: "consulta \<Rightarrow> fallo option"

definition estados_terminales :: "string list" where
  "estados_terminales = [''completado'', ''firmado'']"

definition consultarMuestras :: "laboratorio \<Rightarrow> (muestra_geo list) resultado" where
  "consultarMuestras lab =
     (case lab_fallos lab ConsultaMuestras of
        Some f \<Rightarrow> fallo_como_resultado f
      | None \<Rightarrow> Resultado (Some (lab_muestras lab)) None)"

text \<open>\<^verbatim>\<open>.in('estado', ['completado', 'firmado'])\<close>.\<close>

definition consultarClasificaciones :: "laboratorio \<Rightarrow> (clasificacion_tax list) resultado" where
  "consultarClasificaciones lab =
     (case lab_fallos lab ConsultaClasificaciones of
        Some f \<Rightarrow> fallo_como_resultado f
      | None \<Rightarrow>
          Resultado
            (Some (filter (\<lambda>c. ct_estado c \<in> set estados_terminales) (lab_clasificaciones lab)))
            None)"

text \<open>
  What the two handlers send: the statistics, the list of taxa, or a status with
  \<^verbatim>\<open>{ error, details }\<close>.
\<close>

record taxon_salida =
  tx_name :: string
  tx_count :: nat
  tx_percentage :: nat

datatype respuesta_lab =
  JsonEstadisticas resultado_estadisticas
| JsonTaxones "taxon_salida list"
| JsonError nat string "string option"

text \<open>
  \<^verbatim>\<open>app.get('/estadisticas', ...)\<close>: an error of either query is thrown, and the
  \<^verbatim>\<open>catch\<close> answers 500 with its message.
\<close>

definition error_estadisticas :: "string \<Rightarrow> respuesta_lab" where
  "error_estadisticas msg =
     JsonError 500 (''Error obteniendo estad'' @ [CHR 0xED] @ ''sticas'') (Some msg)"

definition get_estadisticas :: "laboratorio \<Rightarrow> respuesta_lab" where
  "get_estadisticas lab =
     (case consultarMuestras lab of
        Excepcion msg \<Rightarrow> error_estadisticas msg
      | Resultado muestras errorMuestras \<Rightarrow>
          (case errorMuestras of
             Some e \<Rightarrow> error_estadisticas (pe_message e)
           | None \<Rightarrow>
               (case consultarClasificaciones lab of
                  Excepcion msg \<Rightarrow> error_estadisticas msg
                | Resultado clasificaciones errorClasif \<Rightarrow>
                    (case errorClasif of
                       Some e \<Rightarrow> error_estadisticas (pe_message e)
                     | None \<Rightarrow>
                         JsonEstadisticas
                           (calcularEstadisticas
                              (case muestras of None \<Rightarrow> [] | Some ms \<Rightarrow> ms)
                              (case clasificaciones of None \<Rightarrow> [] | Some cs \<Rightarrow> cs))))))"

section \<open>Lab\_Service: \<^verbatim>\<open>GET /estadisticas/taxonomia\<close>\<close>

text \<open>
  The samples come with their classifications embedded under \<^verbatim>\<open>clasificacion\<close>, which
  the handler accepts as an array (whose elements it tests for null), a single object or
  null.
\<close>

datatype clasificacion_embebida =
  Arreglo "clasificacion_tax option list"
| Objeto clasificacion_tax
| Nulo

record muestra_tax =
  mt_id :: int
  mt_clasificacion :: clasificacion_embebida
  mt_paquete :: "paquete_geo option"

text \<open>
  The query: an inner join with the classifications in a terminal state and with a species
  id, so a sample comes with those classifications only, and only if it has one.
\<close>

definition clasificacionesValidas :: "laboratorio \<Rightarrow> int \<Rightarrow> clasificacion_tax list" where
  "clasificacionesValidas lab idMuestra =
     filter (\<lambda>c. ct_id_muestra c = idMuestra \<and> ct_estado c \<in> set estados_terminales
                 \<and> ct_id_especie c \<noteq> None)
       (lab_clasificaciones lab)"

definition consultarTaxonomia :: "laboratorio \<Rightarrow> (muestra_tax list) resultado" where
  "consultarTaxonomia lab =
     (case lab_fallos lab ConsultaTaxonomia of
        Some f \<Rightarrow> fallo_como_resultado f
      | None \<Rightarrow>
          Resultado
            (Some (map (\<lambda>m. \<lparr>mt_id = mg_id m,
                              mt_clasificacion = Arreglo (map Some (clasificacionesValidas lab (mg_id m))),
                              mt_paquete = mg_paquete m\<rparr>)
                     (filter (\<lambda>m. clasificacionesValidas lab (mg_id m) \<noteq> []) (lab_muestras lab))))
            None)"

text \<open>The filter by place, with its three comparisons for a region.\<close>

definition enUbicacion :: "string \<Rightarrow> string \<Rightarrow> muestra_tax \<Rightarrow> bool" where
  "enUbicacion ubicacion tipo m =
     (let dept = departamentoDe (mt_paquete m);
          nombreRegion = map_option re_nombre (Option.bind dept de_region)
      in if tipo = ''departamento'' then map_option de_nombre dept = Some ubicacion
         else if tipo = ''region''
           then normalizarRegion nombreRegion = Some ubicacion
                \<or> nombreRegion = Some ubicacion
                \<or> nombreRegion = Some (con_prefijo ubicacion)
         else False)"

text \<open>
  The classifications of a sample as the handler walks them, and the taxon name of one at
  the level asked for; a classification without a species id or species object, a level
  other than the two, and a missing or empty name give none.
\<close>

definition clasificacionesDe :: "muestra_tax \<Rightarrow> clasificacion_tax option list" where
  "clasificacionesDe muestra =
     (case mt_clasificacion muestra of
        Arreglo cs \<Rightarrow> cs
      | Objeto c \<Rightarrow> [Some c]
      | Nulo \<Rightarrow> [])"

text \<open>\<^verbatim>\<open>!clasif.id_especie\<close> holds for null and for 0.\<close>

definition taxonNombre :: "string \<Rightarrow> clasificacion_tax option \<Rightarrow> string option" where
  "taxonNombre nivel clasif =
     (case clasif of
        None \<Rightarrow> None
      | Some c \<Rightarrow>
          (case (ct_id_especie c, ct_especie c) of
             (Some i, Some esp) \<Rightarrow>
               if i = 0 then None
               else (let nombre = (if nivel = ''familia'' then nombreFamilia esp
                                   else if nivel = ''genero'' then nombreGenero esp
                                   else None)
                     in if verdadero nombre then nombre else None)
           | _ \<Rightarrow> None))"

definition contarTaxon :: "string \<Rightarrow> clasificacion_tax option \<Rightarrow> (string \<times> nat) list \<Rightarrow> (string \<times> nat) list" where
  "contarTaxon nivel clasif taxonMap =
     (case taxonNombre nivel clasif of
        None \<Rightarrow> taxonMap
      | Some nombre \<Rightarrow> incrementar nombre taxonMap)"

definition taxonMapDe :: "string \<Rightarrow> muestra_tax list \<Rightarrow> (string \<times> nat) list" where
  "taxonMapDe nivel muestrasFiltradas =
     fold (\<lambda>muestra. fold (contarTaxon nivel) (clasificacionesDe muestra)) muestrasFiltradas []"

definition salidaTaxon :: "nat \<Rightarrow> string \<times> nat \<Rightarrow> taxon_salida" where
  "salidaTaxon tot entrada =
     \<lparr>tx_name = fst entrada, tx_count = snd entrada,
      tx_percentage = porcentaje (snd entrada) tot\<rparr>"

definition calcularTaxonomia ::
  "string \<Rightarrow> string \<Rightarrow> string \<Rightarrow> muestra_tax list \<Rightarrow> taxon_salida list" where
  "calcularTaxonomia ubicacion tipo nivel muestras =
     (let muestrasFiltradas = filter (enUbicacion ubicacion tipo) muestras
      in take 10
           (ordenar_desc tx_count
              (map (salidaTaxon (length muestrasFiltradas)) (taxonMapDe nivel muestrasFiltradas))))"

definition get_estadisticas_taxonomia ::
  "string option \<Rightarrow> string option \<Rightarrow> string option \<Rightarrow> laboratorio \<Rightarrow> respuesta_lab" where
  "get_estadisticas_taxonomia ubicacion tipo nivel lab =
     (if \<not> verdadero ubicacion \<or> \<not> verdadero tipo \<or> \<not> verdadero nivel
      then JsonError 400
             (''Par'' @ [CHR 0xE1] @ ''metros requeridos: ubicacion, tipo (departamento/region), nivel (familia/genero)'')
             None
      else (case consultarTaxonomia lab of
              Excepcion msg \<Rightarrow>
                JsonError 500 (''Error obteniendo estad'' @ [CHR 0xED] @ ''sticas taxon'' @ [CHR 0xF3] @ ''micas'')
                  (Some msg)
            | Resultado muestras errorMuestras \<Rightarrow>
                (case errorMuestras of
                   Some e \<Rightarrow>
                     JsonError 500
                       (''Error obteniendo estad'' @ [CHR 0xED] @ ''sticas taxon'' @ [CHR 0xF3] @ ''micas'')
                       (Some (pe_message e))
                 | None \<Rightarrow>
                     JsonTaxones
                       (calcularTaxonomia (the ubicacion) (the tipo) (the nivel)
                          (case muestras of None \<Rightarrow> [] | Some ms \<Rightarrow> ms)))))"

section \<open>Notions of the statements and example data\<close>

text \<open>
  The counts and relations the statements below are worded with, and the concrete stores,
  samples and classifications they are instantiated at.
\<close>

definition sin_fallos :: "operacion \<Rightarrow> fallo option" where
  "sin_fallos = (\<lambda>_. None)"

definition mundo_dos_completadas :: mundo where
  "mundo_dos_completadas =
     \<lparr>muestra_botanica = [\<lparr>mb_id = 10, mb_id_paquete = Some 1\<rparr>, \<lparr>mb_id = 11, mb_id_paquete = Some 1\<rparr>],
      clasificacion_herbario =
        [\<lparr>cl_id = 100, cl_id_muestra = 10, cl_estado = ''completado'', cl_id_especie = Some 5,
          cl_estado_reproductivo = None\<rparr>,
         \<lparr>cl_id = 101, cl_id_muestra = 11, cl_estado = ''firmado'', cl_id_especie = Some 6,
          cl_estado_reproductivo = None\<rparr>],
      paquete = [\<lparr>pq_id = 1, pq_estado = ''recibido''\<rparr>],
      dominio_estado = (\<lambda>_. True),
      fallos = sin_fallos,
      escrituras_paquete = [],
      bitacora = []\<rparr>"

definition mundo_sin_clasificar :: mundo where
  "mundo_sin_clasificar =
     \<lparr>muestra_botanica = [\<lparr>mb_id = 10, mb_id_paquete = Some 1\<rparr>],
      clasificacion_herbario = [],
      paquete = [\<lparr>pq_id = 1, pq_estado = ''recibido''\<rparr>],
      dominio_estado = (\<lambda>_. True),
      fallos = sin_fallos,
      escrituras_paquete = [],
      bitacora = []\<rparr>"

definition tres_muestras :: "muestra_con_clasificaciones list" where
  "tres_muestras =
     [\<lparr>mc_id = 1, mc_clasificacion_herbario = Some [''completado'']\<rparr>,
      \<lparr>mc_id = 2, mc_clasificacion_herbario = Some [''completado'']\<rparr>,
      \<lparr>mc_id = 3, mc_clasificacion_herbario = Some []\<rparr>]"

definition mundo_muestra_suelta :: mundo where
  "mundo_muestra_suelta =
     \<lparr>muestra_botanica = [\<lparr>mb_id = 10, mb_id_paquete = None\<rparr>],
      clasificacion_herbario = [],
      paquete = [\<lparr>pq_id = 1, pq_estado = ''en_proceso''\<rparr>],
      dominio_estado = (\<lambda>_. True),
      fallos = sin_fallos,
      escrituras_paquete = [],
      bitacora = []\<rparr>"

text \<open>
  Two worlds that agree on everything the classification calls read: the table, the
  column's domain and the faults of the four classification calls. They may differ in the
  samples, the packages, the log and the faults of the three calls of the recompute.
\<close>

definition mismas_clasificaciones :: "mundo \<Rightarrow> mundo \<Rightarrow> bool" where
  "mismas_clasificaciones w w' =
     (clasificacion_herbario w = clasificacion_herbario w'
      \<and> dominio_estado w = dominio_estado w'
      \<and> fallos w BuscarClasificacionDeMuestra = fallos w' BuscarClasificacionDeMuestra
      \<and> fallos w ActualizarClasificacion = fallos w' ActualizarClasificacion
      \<and> fallos w InsertarClasificacion = fallos w' InsertarClasificacion
      \<and> fallos w BuscarMuestraDeClasificacion = fallos w' BuscarMuestraDeClasificacion)"

definition recalculo_roto :: "operacion \<Rightarrow> fallo option" where
  "recalculo_roto op =
     (if op = BuscarPaqueteDeMuestra then Some (Lanza ''fetch failed'')
      else if op = ObtenerMuestrasDePaquete
        then Some (DevuelveError \<lparr>pe_code = ''57014'', pe_message = ''statement timeout''\<rparr>)
      else if op = ActualizarPaquete
        then Some (DevuelveError \<lparr>pe_code = ''42501'', pe_message = ''permission denied''\<rparr>)
      else None)"

definition mundo_recalculo_roto :: mundo where
  "mundo_recalculo_roto = mundo_dos_completadas\<lparr>fallos := recalculo_roto\<rparr>"







text \<open>
  A lookup of the existing classification that the handler treats as failed: it threw, or
  it returned an error whose code is not \<^verbatim>\<open>PGRST116\<close>.
\<close>

definition busqueda_fallida :: "fallo option \<Rightarrow> bool" where
  "busqueda_fallida f =
     (case f of
        None \<Rightarrow> False
      | Some (Lanza msg) \<Rightarrow> True
      | Some (DevuelveError e) \<Rightarrow> pe_code e \<noteq> ''PGRST116'')"

text \<open>
  A store whose \<^verbatim>\<open>estado\<close> column admits the five states of the classification
  lifecycle and nothing else.
\<close>

definition estados_del_ciclo :: "string list" where
  "estados_del_ciclo = [''borrador'', ''en_analisis'', ''firmado'', ''completado'', ''clasificado'']"

definition mundo_enum :: mundo where
  "mundo_enum =
     \<lparr>muestra_botanica = [\<lparr>mb_id = 10, mb_id_paquete = Some 1\<rparr>, \<lparr>mb_id = 11, mb_id_paquete = Some 1\<rparr>],
      clasificacion_herbario =
        [\<lparr>cl_id = 100, cl_id_muestra = 10, cl_estado = ''borrador'', cl_id_especie = None,
          cl_estado_reproductivo = None\<rparr>],
      paquete = [\<lparr>pq_id = 1, pq_estado = ''en_proceso''\<rparr>],
      dominio_estado = (\<lambda>e. e \<in> set estados_del_ciclo),
      fallos = sin_fallos,
      escrituras_paquete = [],
      bitacora = []\<rparr>"

text \<open>A call that throws.\<close>

definition lanza :: "fallo option \<Rightarrow> bool" where
  "lanza f = (case f of Some (Lanza msg) \<Rightarrow> True | _ \<Rightarrow> False)"

definition region_vacia :: "string \<Rightarrow> region_salida" where
  "region_vacia nombreBase =
     \<lparr>rs_name = nombreBase, rs_departments = 0, rs_specimens = 0, rs_species = 0,
      rs_families = 0, rs_percentage = 0\<rparr>"

definition huila :: "paquete_geo option" where
  "huila = Some \<lparr>pg_conglomerado = Some \<lparr>co_municipio = Some \<lparr>mu_departamento =
       Some \<lparr>de_nombre = ''Huila'', de_region = Some \<lparr>re_nombre = con_prefijo ''Andina''\<rparr>\<rparr>\<rparr>\<rparr>\<rparr>"

definition laboratorio_sin_clasificar :: laboratorio where
  "laboratorio_sin_clasificar =
     \<lparr>lab_muestras = [\<lparr>mg_id = 1, mg_paquete = huila\<rparr>, \<lparr>mg_id = 2, mg_paquete = None\<rparr>],
      lab_clasificaciones =
        [\<lparr>ct_id = 100, ct_id_muestra = 1, ct_id_especie = None, ct_estado = ''borrador'',
          ct_especie = None\<rparr>,
         \<lparr>ct_id = 101, ct_id_muestra = 2, ct_id_especie = None, ct_estado = ''completado'',
          ct_especie = None\<rparr>],
      lab_fallos = (\<lambda>_. None)\<rparr>"

text \<open>
  The count a map of counters holds for a key, and the two counts the taxonomy claim
  speaks of: the classifications of the filtered samples that resolve to a taxon name, and
  the filtered samples that have a classification with a resolvable name.
\<close>

definition cuenta_en :: "('k \<times> nat) list \<Rightarrow> 'k \<Rightarrow> nat" where
  "cuenta_en m k = (case map_of m k of None \<Rightarrow> 0 | Some n \<Rightarrow> n)"

definition cuentaTaxon :: "string \<Rightarrow> string \<Rightarrow> muestra_tax list \<Rightarrow> nat" where
  "cuentaTaxon nivel nombre muestrasFiltradas =
     length (filter (\<lambda>c. taxonNombre nivel c = Some nombre)
               (concat (map clasificacionesDe muestrasFiltradas)))"

definition conTaxon :: "string \<Rightarrow> muestra_tax list \<Rightarrow> muestra_tax list" where
  "conTaxon nivel muestrasFiltradas =
     filter (\<lambda>m. list_ex (\<lambda>c. taxonNombre nivel c \<noteq> None) (clasificacionesDe m)) muestrasFiltradas"

definition especie_inga :: especie where
  "especie_inga =
     \<lparr>es_nombre = Some ''Inga edulis'', es_tipo_amenaza = None,
      es_genero = Some \<lparr>ge_nombre = Some ''Inga'',
                        ge_familia = Some \<lparr>fa_nombre = Some ''Fabaceae''\<rparr>\<rparr>\<rparr>"

definition especie_sin_genero :: especie where
  "especie_sin_genero =
     \<lparr>es_nombre = Some ''Indeterminada sp.'', es_tipo_amenaza = None, es_genero = None\<rparr>"

definition muestras_huila :: "muestra_tax list" where
  "muestras_huila =
     [\<lparr>mt_id = 1,
       mt_clasificacion = Arreglo [Some \<lparr>ct_id = 100, ct_id_muestra = 1, ct_id_especie = Some 7,
                                       ct_estado = ''completado'', ct_especie = Some especie_inga\<rparr>],
       mt_paquete = huila\<rparr>,
      \<lparr>mt_id = 2,
       mt_clasificacion = Arreglo [Some \<lparr>ct_id = 101, ct_id_muestra = 2, ct_id_especie = Some 8,
                                       ct_estado = ''firmado'', ct_especie = Some especie_sin_genero\<rparr>],
       mt_paquete = huila\<rparr>]"

text \<open>
  The stored region name of a sample, the number of samples stored under a name, and the
  specimen count a region map holds for a key.
\<close>

definition nombreRegionDe :: "muestra_geo \<Rightarrow> string option" where
  "nombreRegionDe m =
     map_option re_nombre (Option.bind (departamentoDe (mg_paquete m)) de_region)"

definition cuentaRegion :: "string \<Rightarrow> muestra_geo list \<Rightarrow> nat" where
  "cuentaRegion nombre ms = length (filter (\<lambda>m. nombreRegionDe m = Some nombre) ms)"

definition specimens_en :: "(string \<times> region_data) list \<Rightarrow> string \<Rightarrow> nat" where
  "specimens_en regionesMap k =
     (case map_of regionesMap k of None \<Rightarrow> 0 | Some d \<Rightarrow> rd_specimens d)"

definition tolima :: "paquete_geo option" where
  "tolima = Some \<lparr>pg_conglomerado = Some \<lparr>co_municipio = Some \<lparr>mu_departamento =
       Some \<lparr>de_nombre = ''Tolima'', de_region = Some \<lparr>re_nombre = ''Andina''\<rparr>\<rparr>\<rparr>\<rparr>\<rparr>"

definition muestras_andinas :: "muestra_geo list" where
  "muestras_andinas = [\<lparr>mg_id = 1, mg_paquete = huila\<rparr>, \<lparr>mg_id = 2, mg_paquete = tolima\<rparr>]"

definition clasificaciones_andinas :: "clasificacion_tax list" where
  "clasificaciones_andinas =
     [\<lparr>ct_id = 100, ct_id_muestra = 1, ct_id_especie = Some 7, ct_estado = ''completado'',
       ct_especie = Some especie_inga\<rparr>,
      \<lparr>ct_id = 101, ct_id_muestra = 2, ct_id_especie = Some 7, ct_estado = ''firmado'',
       ct_especie = Some especie_inga\<rparr>]"

definition positivos :: "(string \<times> region_data) list \<Rightarrow> bool" where
  "positivos regionesMap = list_all (\<lambda>p. 0 < rd_specimens (snd p)) regionesMap"

text \<open>
  A store in which the lookup of the existing classification returns an error other than
  \<^verbatim>\<open>PGRST116\<close>, and sample 11 has no classification.
\<close>

definition busqueda_clasificacion_rota :: "operacion \<Rightarrow> fallo option" where
  "busqueda_clasificacion_rota op =
     (if op = BuscarClasificacionDeMuestra
      then Some (DevuelveError \<lparr>pe_code = ''08006'', pe_message = ''connection failure''\<rparr>)
      else None)"

definition mundo_busqueda_clasificacion_rota :: mundo where
  "mundo_busqueda_clasificacion_rota =
     mundo_dos_completadas\<lparr>fallos := busqueda_clasificacion_rota,
                            clasificacion_herbario :=
                              filter (\<lambda>c. cl_id_muestra c \<noteq> 11) (clasificacion_herbario mundo_dos_completadas)\<rparr>"

section \<open>Properties\<close>

lemma contarMuestra_spec:
  "contarMuestra m acc =
     (fst acc + (if es_completada m then 1 else 0),
      snd acc + (if es_en_proceso m then 1 else 0))"
  by (auto simp: contarMuestra_def es_completada_def es_en_proceso_def
        estado_clasificacion_def estados_completados_def estados_en_proceso_def
      split: option.splits list.splits)

lemma contarEstados_spec:
  "contarEstados ms acc = (fst acc + spec_completed ms, snd acc + spec_inProgress ms)"
proof (induction ms arbitrary: acc)
  case Nil
  show ?case by (simp add: spec_completed_def spec_inProgress_def)
next
  case (Cons m ms)
  show ?case
    by (simp add: Cons.IH contarMuestra_spec spec_completed_def spec_inProgress_def)
qed

lemma nuevoEstado_spec: "nuevoEstado ms = spec_estado ms"
  by (simp add: nuevoEstado_def spec_estado_def spec_total_def contarEstados_spec)

lemma length_filter_todas:
  "length (filter P xs) = length xs \<longleftrightarrow> (\<forall>x \<in> set xs. P x)"
proof (induction xs)
  case Nil
  show ?case by simp
next
  case (Cons a xs)
  show ?case
    using Cons length_filter_le [of P xs] by (auto simp del: length_filter_le)
qed

lemma spec_completed_todas:
  "spec_completed ms = length ms \<longleftrightarrow> (\<forall>m \<in> set ms. es_completada m)"
  by (simp add: spec_completed_def length_filter_todas)

lemma nuevoEstado_completo:
  "nuevoEstado ms = ''completo'' \<longleftrightarrow> ms \<noteq> [] \<and> (\<forall>m \<in> set ms. es_completada m)"
  by (auto simp: nuevoEstado_spec spec_estado_def spec_total_def spec_completed_todas)

lemma recalcular_sin_fallos:
  assumes "fallos w ObtenerMuestrasDePaquete = None" "fallos w ActualizarPaquete = None"
  shows "recalcularPaquete idPaquete w =
     (Cumplida, registrar Debug ''Paquete actualizado''
        (w\<lparr>paquete := map (\<lambda>p. if pq_id p = idPaquete
                                 then p\<lparr>pq_estado := nuevoEstado (muestrasDePaquete w idPaquete)\<rparr> else p)
                          (paquete w),
             escrituras_paquete := escrituras_paquete w @ [(idPaquete, nuevoEstado (muestrasDePaquete w idPaquete))]\<rparr>))"
  using assms
  by (simp add: recalcularPaquete_def obtenerMuestrasDePaquete_def actualizarPaquete_def)

subsection \<open>C1: the derived package state\<close>

text \<open>
  C1. For a package with \<open>total\<close> samples, of which \<open>completed\<close> have a classification
  state among completado, firmado, clasificado and \<open>inProgress\<close> one among en\_analisis,
  borrador (a sample with no classification record counts towards neither), the state the
  recompute derives is completo iff \<open>total > 0\<close> and \<open>completed = total\<close>, else en\_proceso
  iff \<open>inProgress > 0\<close>, else recibido. So it is completo exactly when the package has a
  sample and every sample is completed; and when the two store calls succeed, that state is
  what the package rows of that id hold afterwards, the other rows being left as they were.
\<close>

theorem estado_derivado:
  "nuevoEstado ms =
     (if spec_total ms > 0 \<and> spec_completed ms = spec_total ms then ''completo''
      else if spec_inProgress ms > 0 then ''en_proceso''
      else ''recibido'')
   \<and> (nuevoEstado ms = ''completo'' \<longleftrightarrow> ms \<noteq> [] \<and> (\<forall>m \<in> set ms. es_completada m))
   \<and> (fallos w ObtenerMuestrasDePaquete = None \<and> fallos w ActualizarPaquete = None \<longrightarrow>
        paquete (snd (recalcularPaquete idPaquete w)) =
          map (\<lambda>p. if pq_id p = idPaquete
                   then p\<lparr>pq_estado := spec_estado (muestrasDePaquete w idPaquete)\<rparr> else p)
            (paquete w))"
proof (intro conjI impI)
  show "nuevoEstado ms =
     (if spec_total ms > 0 \<and> spec_completed ms = spec_total ms then ''completo''
      else if spec_inProgress ms > 0 then ''en_proceso''
      else ''recibido'')"
    using nuevoEstado_spec [of ms] by (simp add: spec_estado_def)
  show "nuevoEstado ms = ''completo'' \<longleftrightarrow> ms \<noteq> [] \<and> (\<forall>m \<in> set ms. es_completada m)"
    by (rule nuevoEstado_completo)
next
  assume "fallos w ObtenerMuestrasDePaquete = None \<and> fallos w ActualizarPaquete = None"
  then show "paquete (snd (recalcularPaquete idPaquete w)) =
          map (\<lambda>p. if pq_id p = idPaquete
                   then p\<lparr>pq_estado := spec_estado (muestrasDePaquete w idPaquete)\<rparr> else p)
            (paquete w)"
    by (simp add: recalcular_sin_fallos registrar_def registrar_con_def nuevoEstado_spec)
qed

lemma evalua_muestras_dos: "muestrasDePaquete mundo_dos_completadas 1 =
   [\<lparr>mc_id = 10, mc_clasificacion_herbario = Some [''completado'']\<rparr>,
    \<lparr>mc_id = 11, mc_clasificacion_herbario = Some [''firmado'']\<rparr>]"
  by (simp add: muestrasDePaquete_def mundo_dos_completadas_def embebidas_def)

theorem estado_derivado_witness:
  "nuevoEstado (muestrasDePaquete mundo_dos_completadas 1) = ''completo''
   \<and> spec_total (muestrasDePaquete mundo_dos_completadas 1) = 2
   \<and> spec_completed (muestrasDePaquete mundo_dos_completadas 1) = 2
   \<and> fallos mundo_dos_completadas ObtenerMuestrasDePaquete = None
   \<and> fallos mundo_dos_completadas ActualizarPaquete = None
   \<and> paquete (snd (recalcularPaquete 1 mundo_dos_completadas)) = [\<lparr>pq_id = 1, pq_estado = ''completo''\<rparr>]"
proof -
  have f: "fallos mundo_dos_completadas ObtenerMuestrasDePaquete = None"
          "fallos mundo_dos_completadas ActualizarPaquete = None"
    by (simp_all add: mundo_dos_completadas_def sin_fallos_def)
  have t: "spec_total (muestrasDePaquete mundo_dos_completadas 1) = 2"
    by (simp add: evalua_muestras_dos spec_total_def)
  have c: "spec_completed (muestrasDePaquete mundo_dos_completadas 1) = 2"
    by (simp add: evalua_muestras_dos spec_completed_def es_completada_def estado_clasificacion_def)
  have p: "paquete (snd (recalcularPaquete 1 mundo_dos_completadas))
             = map (\<lambda>p. if pq_id p = 1 then p\<lparr>pq_estado := nuevoEstado (muestrasDePaquete mundo_dos_completadas 1)\<rparr> else p)
                 (paquete mundo_dos_completadas)"
    by (simp add: recalcular_sin_fallos [OF f] registrar_def registrar_con_def)
  from estado_derivado [of "muestrasDePaquete mundo_dos_completadas 1" mundo_dos_completadas 1]
  have n: "nuevoEstado (muestrasDePaquete mundo_dos_completadas 1) = ''completo''"
    using t c by simp
  show ?thesis using f t c n p by (simp add: mundo_dos_completadas_def)
qed

subsection \<open>C2: the write is unconditional\<close>

text \<open>
  C2 says that the recompute writes the package only when the derived state differs from
  the stored one. The function never reads the stored state: on a package stored as
  recibido whose only sample has no classification, it derives recibido and issues the
  update all the same, and a second run issues it once more.
\<close>

theorem recalculo_reescribe:
  "pq_estado (hd (paquete mundo_sin_clasificar)) = ''recibido''
   \<and> escrituras_paquete (snd (actualizarEstadoPaqueteManual 10 mundo_sin_clasificar))
       = [(1, ''recibido'')]
   \<and> escrituras_paquete
        (snd (actualizarEstadoPaqueteManual 10
           (snd (actualizarEstadoPaqueteManual 10 mundo_sin_clasificar))))
       = [(1, ''recibido''), (1, ''recibido'')]"
  by (simp add: mundo_sin_clasificar_def sin_fallos_def actualizarEstadoPaqueteManual_def
      buscarPaqueteDeMuestra_def single_def recalcularPaquete_def obtenerMuestrasDePaquete_def
      muestrasDePaquete_def embebidas_def actualizarPaquete_def nuevoEstado_def contarMuestra_def registrar_def registrar_con_def)

lemma length_filter_disjuntos:
  "(\<And>x. \<not> (P x \<and> Q x)) \<Longrightarrow>
   length (filter (\<lambda>x. P x \<or> Q x) xs) = length (filter P xs) + length (filter Q xs)"
  by (induction xs) auto

subsection \<open>C3: two completed samples and one without a record\<close>

text \<open>
  C3 expects en\_proceso for a package of three samples, two classified completado and one
  with no classification record. No sample is in en\_analisis or borrador there, so the
  in-progress counter is 0 and the three-way case falls through to recibido.
\<close>

theorem tres_muestras_contra:
  "length tres_muestras = 3
   \<and> length (filter (\<lambda>m. estado_clasificacion m = Some ''completado'') tres_muestras) = 2
   \<and> length (filter (\<lambda>m. estado_clasificacion m = None) tres_muestras) = 1
   \<and> nuevoEstado tres_muestras \<noteq> ''en_proceso''"
  by (simp add: tres_muestras_def estado_clasificacion_def nuevoEstado_def contarMuestra_def
      estados_completados_def estados_en_proceso_def)

text \<open>
  C3, amended. For every package of exactly three samples, two with a classification in
  state completado and one with no classification record, the recompute derives recibido
  (neither completo nor en\_proceso).
\<close>

theorem dos_de_tres_recibido:
  assumes "length ms = 3"
    and "length (filter (\<lambda>m. estado_clasificacion m = Some ''completado'') ms) = 2"
    and "length (filter (\<lambda>m. estado_clasificacion m = None) ms) = 1"
  shows "nuevoEstado ms = ''recibido''"
proof -
  let ?P = "\<lambda>m. estado_clasificacion m = Some ''completado''"
  let ?Q = "\<lambda>m. estado_clasificacion m = None"
  have "length (filter (\<lambda>m. ?P m \<or> ?Q m) ms) = length ms"
    using assms length_filter_disjuntos [of ?P ?Q ms] by simp
  then have todas: "\<forall>m \<in> set ms. ?P m \<or> ?Q m"
    by (simp only: length_filter_todas)
  have "filter ?Q ms \<noteq> []"
    using assms(3) by auto
  then obtain m where m: "m \<in> set ms" "?Q m"
    by (auto simp: filter_empty_conv)
  then have "\<not> es_completada m"
    by (simp add: es_completada_def)
  with m have no_todas: "spec_completed ms \<noteq> length ms"
    by (auto simp: spec_completed_todas)
  have "\<forall>m \<in> set ms. \<not> es_en_proceso m"
    using todas by (auto simp: es_en_proceso_def)
  then have "spec_inProgress ms = 0"
    by (simp add: spec_inProgress_def filter_empty_conv)
  with no_todas show ?thesis
    by (simp add: nuevoEstado_spec spec_estado_def spec_total_def)
qed

theorem dos_de_tres_recibido_witness:
  "length tres_muestras = 3
   \<and> length (filter (\<lambda>m. estado_clasificacion m = Some ''completado'') tres_muestras) = 2
   \<and> length (filter (\<lambda>m. estado_clasificacion m = None) tres_muestras) = 1
   \<and> nuevoEstado tres_muestras = ''recibido''"
proof -
  have a: "length tres_muestras = 3"
    by (simp add: tres_muestras_def)
  have b: "length (filter (\<lambda>m. estado_clasificacion m = Some ''completado'') tres_muestras) = 2"
    by (simp add: tres_muestras_def estado_clasificacion_def)
  have c: "length (filter (\<lambda>m. estado_clasificacion m = None) tres_muestras) = 1"
    by (simp add: tres_muestras_def estado_clasificacion_def)
  show ?thesis using a b c dos_de_tres_recibido [OF a b c] by simp
qed

subsection \<open>C9: a sample without a package\<close>

lemma sin_paquete_no_escribe:
  assumes "fallos w BuscarPaqueteDeMuestra \<noteq> None
           \<or> idMuestra \<notin> set (map mb_id (muestra_botanica w))
           \<or> (\<exists>m \<in> set (muestra_botanica w). mb_id m = idMuestra \<and> mb_id_paquete m = None)"
  shows "fst (actualizarEstadoPaqueteManual idMuestra w) = Cumplida
         \<and> (snd (actualizarEstadoPaqueteManual idMuestra w))\<lparr>bitacora := bitacora w\<rparr> = w"
proof -
  let ?filas = "filter (\<lambda>m. mb_id m = idMuestra) (muestra_botanica w)"
  consider (fallo) f where "fallos w BuscarPaqueteDeMuestra = Some f"
    | (ninguna) "fallos w BuscarPaqueteDeMuestra = None" "?filas = []"
    | (nula) "fallos w BuscarPaqueteDeMuestra = None" "?filas \<noteq> []"
        "\<exists>m \<in> set (muestra_botanica w). mb_id m = idMuestra \<and> mb_id_paquete m = None"
    using assms by (cases "fallos w BuscarPaqueteDeMuestra") (auto simp: filter_empty_conv)
  then show ?thesis
  proof cases
    case fallo
    then show ?thesis
      by (cases f) (simp_all add: actualizarEstadoPaqueteManual_def buscarPaqueteDeMuestra_def
          fallo_como_resultado_def capturado_def registrar_def registrar_con_def)
  next
    case ninguna
    then show ?thesis
      by (simp add: actualizarEstadoPaqueteManual_def buscarPaqueteDeMuestra_def single_def
          error_PGRST116_def registrar_def registrar_con_def)
  next
    case nula
    then obtain m where m: "m \<in> set ?filas" "mb_id_paquete m = None" by auto
    show ?thesis
    proof (cases ?filas)
      case Nil
      with nula show ?thesis by simp
    next
      case (Cons a resto)
      show ?thesis
      proof (cases resto)
        case Nil
        with Cons m have "mb_id_paquete a = None" by simp
        with Cons Nil nula(1) show ?thesis
          by (simp add: actualizarEstadoPaqueteManual_def buscarPaqueteDeMuestra_def single_def
              registrar_def registrar_con_def)
      next
        case (Cons b resto')
        with \<open>?filas = a # resto\<close> nula(1) show ?thesis
          by (simp add: actualizarEstadoPaqueteManual_def buscarPaqueteDeMuestra_def single_def
              error_PGRST116_def registrar_def registrar_con_def)
      qed
    qed
  qed
qed

text \<open>
  C9. When the sample cannot be fetched (the lookup fails), does not exist, or has a null
  package reference, the recompute returns normally and writes nothing: the package table,
  the record of executed package updates and the other tables are what they were.
\<close>

theorem sin_paquete_sin_escritura:
  assumes "fallos w BuscarPaqueteDeMuestra \<noteq> None
           \<or> idMuestra \<notin> set (map mb_id (muestra_botanica w))
           \<or> (\<exists>m \<in> set (muestra_botanica w). mb_id m = idMuestra \<and> mb_id_paquete m = None)"
  shows "fst (actualizarEstadoPaqueteManual idMuestra w) = Cumplida
         \<and> paquete (snd (actualizarEstadoPaqueteManual idMuestra w)) = paquete w
         \<and> escrituras_paquete (snd (actualizarEstadoPaqueteManual idMuestra w)) = escrituras_paquete w
         \<and> muestra_botanica (snd (actualizarEstadoPaqueteManual idMuestra w)) = muestra_botanica w
         \<and> clasificacion_herbario (snd (actualizarEstadoPaqueteManual idMuestra w)) = clasificacion_herbario w"
proof -
  let ?w' = "snd (actualizarEstadoPaqueteManual idMuestra w)"
  from sin_paquete_no_escribe [OF assms]
  have c: "fst (actualizarEstadoPaqueteManual idMuestra w) = Cumplida"
    and i: "?w'\<lparr>bitacora := bitacora w\<rparr> = w"
    by simp_all
  have "paquete (?w'\<lparr>bitacora := bitacora w\<rparr>) = paquete ?w'"
    "escrituras_paquete (?w'\<lparr>bitacora := bitacora w\<rparr>) = escrituras_paquete ?w'"
    "muestra_botanica (?w'\<lparr>bitacora := bitacora w\<rparr>) = muestra_botanica ?w'"
    "clasificacion_herbario (?w'\<lparr>bitacora := bitacora w\<rparr>) = clasificacion_herbario ?w'"
    by simp_all
  with c i show ?thesis by simp
qed

theorem sin_paquete_sin_escritura_witness:
  "(\<exists>m \<in> set (muestra_botanica mundo_muestra_suelta). mb_id m = 10 \<and> mb_id_paquete m = None)
   \<and> 99 \<notin> set (map mb_id (muestra_botanica mundo_muestra_suelta))
   \<and> fallos mundo_recalculo_roto BuscarPaqueteDeMuestra \<noteq> None
   \<and> paquete (snd (actualizarEstadoPaqueteManual 10 mundo_muestra_suelta))
       = [\<lparr>pq_id = 1, pq_estado = ''en_proceso''\<rparr>]
   \<and> escrituras_paquete (snd (actualizarEstadoPaqueteManual 10 mundo_muestra_suelta)) = []
   \<and> escrituras_paquete (snd (actualizarEstadoPaqueteManual 99 mundo_muestra_suelta)) = []
   \<and> paquete (snd (actualizarEstadoPaqueteManual 10 mundo_recalculo_roto))
       = [\<lparr>pq_id = 1, pq_estado = ''recibido''\<rparr>]
   \<and> escrituras_paquete (snd (actualizarEstadoPaqueteManual 10 mundo_recalculo_roto)) = []"
proof -
  have a: "\<exists>m \<in> set (muestra_botanica mundo_muestra_suelta). mb_id m = 10 \<and> mb_id_paquete m = None"
    by (simp add: mundo_muestra_suelta_def)
  have b: "99 \<notin> set (map mb_id (muestra_botanica mundo_muestra_suelta))"
    by (simp add: mundo_muestra_suelta_def)
  have c: "fallos mundo_recalculo_roto BuscarPaqueteDeMuestra \<noteq> None"
    by (simp add: mundo_recalculo_roto_def recalculo_roto_def)
  have d: "paquete mundo_recalculo_roto = [\<lparr>pq_id = 1, pq_estado = ''recibido''\<rparr>]"
    "escrituras_paquete mundo_recalculo_roto = []"
    by (simp_all add: mundo_recalculo_roto_def mundo_dos_completadas_def)
  show ?thesis
    using a b c d sin_paquete_sin_escritura [of mundo_muestra_suelta 10]
      sin_paquete_sin_escritura [of mundo_muestra_suelta 99]
      sin_paquete_sin_escritura [of mundo_recalculo_roto 10]
    by (simp add: mundo_muestra_suelta_def)
qed


lemma actualizarPaquete_marco:
  "mismas_clasificaciones w (snd (actualizarPaquete idPaquete estado w))
   \<and> muestra_botanica (snd (actualizarPaquete idPaquete estado w)) = muestra_botanica w
   \<and> bitacora (snd (actualizarPaquete idPaquete estado w)) = bitacora w"
  by (simp add: actualizarPaquete_def mismas_clasificaciones_def split: option.splits)

lemma registrar_marco [simp]:
  "mismas_clasificaciones w (registrar n t w')  = mismas_clasificaciones w w'"
  "mismas_clasificaciones (registrar n t w) w'  = mismas_clasificaciones w w'"
  "mismas_clasificaciones w (registrar_con n t d w')  = mismas_clasificaciones w w'"
  "mismas_clasificaciones (registrar_con n t d w) w'  = mismas_clasificaciones w w'"
  by (simp_all add: mismas_clasificaciones_def registrar_def registrar_con_def)

lemma mismas_refl [simp]: "mismas_clasificaciones w w"
  by (simp add: mismas_clasificaciones_def)



lemma recalcularPaquete_marco:
  "mismas_clasificaciones w (snd (recalcularPaquete idPaquete w))"
proof -
  obtain r v where a: "actualizarPaquete idPaquete
      (nuevoEstado (muestrasDePaquete w idPaquete)) w = (r, v)"
    by (cases "actualizarPaquete idPaquete (nuevoEstado (muestrasDePaquete w idPaquete)) w")
  with actualizarPaquete_marco [of w idPaquete "nuevoEstado (muestrasDePaquete w idPaquete)"]
  have v: "mismas_clasificaciones w v" by simp
  show ?thesis
  proof (cases "fallos w ObtenerMuestrasDePaquete")
    case None
    with a v show ?thesis
      by (cases r) (auto simp: recalcularPaquete_def obtenerMuestrasDePaquete_def capturado_def
          split: option.splits)
  next
    case (Some f)
    then show ?thesis
      by (cases f) (simp_all add: recalcularPaquete_def obtenerMuestrasDePaquete_def
          fallo_como_resultado_def capturado_def)
  qed
qed

lemma recalculo_marco:
  "mismas_clasificaciones w (snd (actualizarEstadoPaqueteManual idMuestra w))"
  using recalcularPaquete_marco
  by (auto simp: actualizarEstadoPaqueteManual_def capturado_def
      split: resultado.splits option.splits)

lemma enSegundoPlano_marco: "mismas_clasificaciones w (enSegundoPlano idMuestra w)"
proof -
  obtain p v where a: "actualizarEstadoPaqueteManual idMuestra w = (p, v)"
    by (cases "actualizarEstadoPaqueteManual idMuestra w")
  with recalculo_marco [of w idMuestra] have "mismas_clasificaciones w v" by simp
  with a show ?thesis by (cases p) (simp_all add: enSegundoPlano_def)
qed













lemma enSegundoPlano_clasificaciones:
  "clasificacion_herbario (enSegundoPlano idMuestra w) = clasificacion_herbario w"
  using enSegundoPlano_marco [of w idMuestra] by (simp add: mismas_clasificaciones_def)

lemma fold_max_cota: "a \<le> fold max xs (a::int) \<and> (\<forall>x \<in> set xs. x \<le> fold max xs a)"
proof (induction xs arbitrary: a)
  case Nil
  show ?case by simp
next
  case (Cons y ys)
  from Cons [of "max y a"] show ?case by auto
qed

lemma siguiente_id_nuevo: "siguiente_id filas \<notin> set (map cl_id filas)"
proof
  assume "siguiente_id filas \<in> set (map cl_id filas)"
  with fold_max_cota [of 0 "map cl_id filas"]
  have "siguiente_id filas \<le> fold max (map cl_id filas) 0" by blast
  then show False by (simp add: siguiente_id_def)
qed

lemma ramaInsertar_ok:
  assumes "fallos w InsertarClasificacion = None" "dominio_estado w e"
  shows "fst (ramaInsertar n e w) =
           \<lparr>status = 201,
            cuerpo = CuerpoEstado (siguiente_id (clasificacion_herbario w)) e
                       (''Clasificaci'' @ [CHR 0xF3] @ ''n creada'')\<rparr>
         \<and> clasificacion_herbario (snd (ramaInsertar n e w)) =
             clasificacion_herbario w @
               [\<lparr>cl_id = siguiente_id (clasificacion_herbario w), cl_id_muestra = n,
                 cl_estado = e, cl_id_especie = None, cl_estado_reproductivo = None\<rparr>]"
  using assms
  by (simp add: ramaInsertar_def insertarClasificacion_def registrar_def registrar_con_def Let_def
      enSegundoPlano_clasificaciones)

lemma ramaInsertar_rechazo:
  assumes "fallos w InsertarClasificacion \<noteq> None \<or> \<not> dominio_estado w e"
  shows "status (fst (ramaInsertar n e w)) = 500
         \<and> clasificacion_herbario (snd (ramaInsertar n e w)) = clasificacion_herbario w"
proof (cases "fallos w InsertarClasificacion")
  case None
  with assms show ?thesis
    by (simp add: ramaInsertar_def insertarClasificacion_def registrar_def registrar_con_def)
next
  case (Some f)
  then show ?thesis
    by (cases f) (simp_all add: ramaInsertar_def insertarClasificacion_def registrar_def registrar_con_def
        fallo_como_resultado_def error_interno_def)
qed

lemma put_idMuestra_sin_registro:
  assumes "filter (\<lambda>c. cl_id_muestra c = n) (clasificacion_herbario w) = []"
    and "e \<noteq> []"
    and "fallos w BuscarClasificacionDeMuestra = None"
  shows "put_clasificaciones_idMuestra_estado (Some n) (Some e) w
           = ramaInsertar n e (registrar Info ''Actualizando estado de muestra'' w)"
  using assms
  by (simp add: put_clasificaciones_idMuestra_estado_def sin_estado_def Let_def
      buscarClasificacionDeMuestra_def registrar_def registrar_con_def single_def error_PGRST116_def)

subsection \<open>C8: the endpoint by sample id creates a missing classification\<close>

text \<open>
  C8 says the request never fails for a sample without a classification record. The
  handler does insert a row then, but it answers 500 when the store rejects the insert:
  here the store's \<^verbatim>\<open>estado\<close> column admits the five lifecycle states only, sample 11
  has no classification, and the non-empty \<^verbatim>\<open>estado\<close> sent is none of the five.
\<close>

theorem insercion_rechazada:
  "filter (\<lambda>c. cl_id_muestra c = 11) (clasificacion_herbario mundo_enum) = []
   \<and> status (fst (put_clasificaciones_idMuestra_estado (Some 11) (Some ''revisado'') mundo_enum)) = 500
   \<and> clasificacion_herbario
        (snd (put_clasificaciones_idMuestra_estado (Some 11) (Some ''revisado'') mundo_enum))
       = clasificacion_herbario mundo_enum"
  by (simp add: put_clasificaciones_idMuestra_estado_def sin_estado_def Let_def
      buscarClasificacionDeMuestra_def registrar_def registrar_con_def single_def error_PGRST116_def
      mundo_enum_def sin_fallos_def estados_del_ciclo_def ramaInsertar_def
      insertarClasificacion_def)

lemma put_idMuestra_sin_fila:
  assumes "filter (\<lambda>c. cl_id_muestra c = n) (clasificacion_herbario w) = []"
    and "e \<noteq> []"
    and "\<not> busqueda_fallida (fallos w BuscarClasificacionDeMuestra)"
  shows "put_clasificaciones_idMuestra_estado (Some n) (Some e) w
           = ramaInsertar n e (registrar Info ''Actualizando estado de muestra'' w)"
proof (cases "fallos w BuscarClasificacionDeMuestra")
  case None
  with assms(1,2) show ?thesis by (simp add: put_idMuestra_sin_registro)
next
  case (Some f)
  show ?thesis
  proof (cases f)
    case (Lanza msg)
    with Some assms(3) show ?thesis by (simp add: busqueda_fallida_def)
  next
    case (DevuelveError err)
    with Some assms(3) have "pe_code err = ''PGRST116''"
      by (simp add: busqueda_fallida_def)
    with Some DevuelveError assms(2) show ?thesis
      by (simp add: put_clasificaciones_idMuestra_estado_def sin_estado_def Let_def
          buscarClasificacionDeMuestra_def registrar_def fallo_como_resultado_def)
  qed
qed

lemma put_idMuestra_busqueda_fallida:
  assumes "e \<noteq> []" "busqueda_fallida (fallos w BuscarClasificacionDeMuestra)"
  shows "status (fst (put_clasificaciones_idMuestra_estado (Some n) (Some e) w)) = 500
         \<and> clasificacion_herbario (snd (put_clasificaciones_idMuestra_estado (Some n) (Some e) w))
             = clasificacion_herbario w"
proof (cases "fallos w BuscarClasificacionDeMuestra")
  case None
  with assms(2) show ?thesis by (simp add: busqueda_fallida_def)
next
  case (Some f)
  show ?thesis
  proof (cases f)
    case (Lanza msg)
    with Some assms(1) show ?thesis
      by (simp add: put_clasificaciones_idMuestra_estado_def sin_estado_def Let_def
          buscarClasificacionDeMuestra_def registrar_def registrar_con_def
          fallo_como_resultado_def error_interno_def)
  next
    case (DevuelveError err)
    with Some assms(2) have "pe_code err \<noteq> ''PGRST116''"
      by (simp add: busqueda_fallida_def)
    with Some DevuelveError assms(1) show ?thesis
      by (simp add: put_clasificaciones_idMuestra_estado_def sin_estado_def Let_def
          buscarClasificacionDeMuestra_def registrar_def registrar_con_def
          fallo_como_resultado_def)
  qed
qed

text \<open>
  C8, amended. For every sample id with no classification record and every non-empty
  \<^verbatim>\<open>estado\<close>: if the lookup of the existing classification fails (it throws, or returns
  an error other than \<^verbatim>\<open>PGRST116\<close>), the endpoint answers 500 and inserts nothing.
  Otherwise it attempts the insert: if the store accepts it, the endpoint appends one
  classification row for that sample with the given \<^verbatim>\<open>estado\<close>, a null species and a
  null reproductive state, under an id no other row has, and answers 201 with that id; if
  the store rejects it, the endpoint answers 500 and the table is unchanged.
\<close>

theorem crea_clasificacion:
  assumes "filter (\<lambda>c. cl_id_muestra c = n) (clasificacion_herbario w) = []"
    and "e \<noteq> []"
  shows "(if busqueda_fallida (fallos w BuscarClasificacionDeMuestra)
          then status (fst (put_clasificaciones_idMuestra_estado (Some n) (Some e) w)) = 500
               \<and> clasificacion_herbario
                    (snd (put_clasificaciones_idMuestra_estado (Some n) (Some e) w)) =
                   clasificacion_herbario w
          else if fallos w InsertarClasificacion = None \<and> dominio_estado w e
          then fst (put_clasificaciones_idMuestra_estado (Some n) (Some e) w) =
                 \<lparr>status = 201,
                  cuerpo = CuerpoEstado (siguiente_id (clasificacion_herbario w)) e
                             (''Clasificaci'' @ [CHR 0xF3] @ ''n creada'')\<rparr>
               \<and> clasificacion_herbario
                    (snd (put_clasificaciones_idMuestra_estado (Some n) (Some e) w)) =
                   clasificacion_herbario w @
                     [\<lparr>cl_id = siguiente_id (clasificacion_herbario w), cl_id_muestra = n,
                       cl_estado = e, cl_id_especie = None, cl_estado_reproductivo = None\<rparr>]
               \<and> siguiente_id (clasificacion_herbario w) \<notin> set (map cl_id (clasificacion_herbario w))
          else status (fst (put_clasificaciones_idMuestra_estado (Some n) (Some e) w)) = 500
               \<and> clasificacion_herbario
                    (snd (put_clasificaciones_idMuestra_estado (Some n) (Some e) w)) =
                   clasificacion_herbario w)"
proof (cases "busqueda_fallida (fallos w BuscarClasificacionDeMuestra)")
  case True
  with put_idMuestra_busqueda_fallida [OF assms(2) True, of n] show ?thesis by simp
next
  case False
  let ?w1 = "registrar Info ''Actualizando estado de muestra'' w"
  have eq: "put_clasificaciones_idMuestra_estado (Some n) (Some e) w = ramaInsertar n e ?w1"
    by (rule put_idMuestra_sin_fila [OF assms False])
  have w1: "fallos ?w1 = fallos w" "dominio_estado ?w1 = dominio_estado w"
    "clasificacion_herbario ?w1 = clasificacion_herbario w"
    by (simp_all add: registrar_def)
  show ?thesis
  proof (cases "fallos w InsertarClasificacion = None \<and> dominio_estado w e")
    case True
    then have "fallos ?w1 InsertarClasificacion = None" "dominio_estado ?w1 e"
      by (simp_all add: w1)
    from ramaInsertar_ok [OF this, of n] True False show ?thesis
      by (simp add: eq w1 siguiente_id_nuevo del: set_map)
  next
    case False
    then have "fallos ?w1 InsertarClasificacion \<noteq> None \<or> \<not> dominio_estado ?w1 e"
      by (simp add: w1)
    from ramaInsertar_rechazo [OF this, of n] False
      \<open>\<not> busqueda_fallida (fallos w BuscarClasificacionDeMuestra)\<close>
    show ?thesis
      by (simp add: eq w1)
  qed
qed

theorem crea_clasificacion_witness:
  "filter (\<lambda>c. cl_id_muestra c = 10) (clasificacion_herbario mundo_sin_clasificar) = []
   \<and> \<not> busqueda_fallida (fallos mundo_sin_clasificar BuscarClasificacionDeMuestra)
   \<and> fallos mundo_sin_clasificar InsertarClasificacion = None
   \<and> dominio_estado mundo_sin_clasificar ''borrador''
   \<and> fst (put_clasificaciones_idMuestra_estado (Some 10) (Some ''borrador'') mundo_sin_clasificar)
       = \<lparr>status = 201,
          cuerpo = CuerpoEstado 1 ''borrador'' (''Clasificaci'' @ [CHR 0xF3] @ ''n creada'')\<rparr>
   \<and> clasificacion_herbario
        (snd (put_clasificaciones_idMuestra_estado (Some 10) (Some ''borrador'') mundo_sin_clasificar))
       = [\<lparr>cl_id = 1, cl_id_muestra = 10, cl_estado = ''borrador'', cl_id_especie = None,
           cl_estado_reproductivo = None\<rparr>]
   \<and> filter (\<lambda>c. cl_id_muestra c = 11) (clasificacion_herbario mundo_busqueda_clasificacion_rota) = []
   \<and> busqueda_fallida (fallos mundo_busqueda_clasificacion_rota BuscarClasificacionDeMuestra)
   \<and> fallos mundo_busqueda_clasificacion_rota InsertarClasificacion = None
   \<and> dominio_estado mundo_busqueda_clasificacion_rota ''borrador''
   \<and> status (fst (put_clasificaciones_idMuestra_estado (Some 11) (Some ''borrador'')
                    mundo_busqueda_clasificacion_rota)) = 500
   \<and> map cl_id (clasificacion_herbario
        (snd (put_clasificaciones_idMuestra_estado (Some 11) (Some ''borrador'')
                mundo_busqueda_clasificacion_rota))) = [100]"
proof -
  have a: "filter (\<lambda>c. cl_id_muestra c = 10) (clasificacion_herbario mundo_sin_clasificar) = []"
    by (simp add: mundo_sin_clasificar_def)
  have b: "''borrador'' \<noteq> []" by simp
  have c: "\<not> busqueda_fallida (fallos mundo_sin_clasificar BuscarClasificacionDeMuestra)"
    by (simp add: mundo_sin_clasificar_def sin_fallos_def busqueda_fallida_def)
  have d: "fallos mundo_sin_clasificar InsertarClasificacion = None"
      "dominio_estado mundo_sin_clasificar ''borrador''"
    by (simp_all add: mundo_sin_clasificar_def sin_fallos_def)
  have s: "siguiente_id (clasificacion_herbario mundo_sin_clasificar) = 1"
    by (simp add: mundo_sin_clasificar_def siguiente_id_def)
  have t: "clasificacion_herbario mundo_sin_clasificar = []"
    by (simp add: mundo_sin_clasificar_def)
  have a': "filter (\<lambda>c. cl_id_muestra c = 11) (clasificacion_herbario mundo_busqueda_clasificacion_rota) = []"
    by (simp add: mundo_busqueda_clasificacion_rota_def mundo_dos_completadas_def)
  have c': "busqueda_fallida (fallos mundo_busqueda_clasificacion_rota BuscarClasificacionDeMuestra)"
    by (simp add: mundo_busqueda_clasificacion_rota_def busqueda_clasificacion_rota_def
        busqueda_fallida_def)
  have d': "fallos mundo_busqueda_clasificacion_rota InsertarClasificacion = None"
      "dominio_estado mundo_busqueda_clasificacion_rota ''borrador''"
    by (simp_all add: mundo_busqueda_clasificacion_rota_def busqueda_clasificacion_rota_def
        mundo_dos_completadas_def)
  have t': "map cl_id (clasificacion_herbario mundo_busqueda_clasificacion_rota) = [100]"
    by (simp add: mundo_busqueda_clasificacion_rota_def mundo_dos_completadas_def)
  show ?thesis
    using a c d s t a' c' d' t' crea_clasificacion [OF a b] crea_clasificacion [OF a' b]
    by simp
qed

lemma ramaActualizar_no_400: "status (fst (ramaActualizar ex e w)) \<noteq> 400"
proof -
  let ?t = "''Clasificaci'' @ [CHR 0xF3] @ ''n existente encontrada''"
  obtain r v where a: "actualizarEstadoUnico (cl_id ex) e (registrar Info ?t w) = (r, v)"
    by (cases "actualizarEstadoUnico (cl_id ex) e (registrar Info ?t w)")
  show ?thesis
  proof (cases r)
    case (Excepcion msg)
    with a show ?thesis by (simp add: ramaActualizar_def error_interno_def)
  next
    case (Resultado d err)
    with a show ?thesis
      by (cases d; cases err) (simp_all add: ramaActualizar_def error_interno_def)
  qed
qed

lemma ramaInsertar_no_400: "status (fst (ramaInsertar n e w)) \<noteq> 400"
proof -
  let ?t = "''No existe clasificaci'' @ [CHR 0xF3] @ ''n previa. Creando nueva''"
  obtain r v where a: "insertarClasificacion n e (registrar Info ?t w) = (r, v)"
    by (cases "insertarClasificacion n e (registrar Info ?t w)")
  show ?thesis
  proof (cases r)
    case (Excepcion msg)
    with a show ?thesis by (simp add: ramaInsertar_def error_interno_def)
  next
    case (Resultado d err)
    with a show ?thesis
      by (cases d; cases err) (simp_all add: ramaInsertar_def error_interno_def)
  qed
qed

lemma put_idMuestra_400:
  "(status (fst (put_clasificaciones_idMuestra_estado n estado w)) = 400)
     = (n = None \<or> sin_estado estado)"
proof (cases n)
  case None
  then show ?thesis by (simp add: put_clasificaciones_idMuestra_estado_def)
next
  case (Some k)
  show ?thesis
  proof (cases "sin_estado estado")
    case True
    with Some show ?thesis
      by (simp add: put_clasificaciones_idMuestra_estado_def estado_requerido_def)
  next
    case False
    let ?w1 = "registrar Info ''Actualizando estado de muestra'' w"
    show ?thesis
    proof (cases "buscarClasificacionDeMuestra k ?w1")
      case (Excepcion msg)
      with Some False show ?thesis
        by (simp add: put_clasificaciones_idMuestra_estado_def Let_def error_interno_def)
    next
      case (Resultado existing findError)
      with Some False ramaActualizar_no_400 ramaInsertar_no_400 show ?thesis
        by (cases existing; cases findError)
           (simp_all add: put_clasificaciones_idMuestra_estado_def Let_def)
    qed
  qed
qed

lemma put_id_rechazo:
  assumes "e \<noteq> []" "fallos w ActualizarClasificacion \<noteq> None \<or> \<not> dominio_estado w e"
  shows "status (fst (put_clasificaciones_id_estado i (Some e) w)) = 500
         \<and> clasificacion_herbario (snd (put_clasificaciones_id_estado i (Some e) w))
             = clasificacion_herbario w"
proof (cases "fallos w ActualizarClasificacion")
  case None
  with assms show ?thesis
    by (simp add: put_clasificaciones_id_estado_def sin_estado_def Let_def
        actualizarEstadoPorId_def registrar_def registrar_con_def)
next
  case (Some f)
  with assms(1) show ?thesis
    by (cases f) (simp_all add: put_clasificaciones_id_estado_def sin_estado_def Let_def
        actualizarEstadoPorId_def registrar_def registrar_con_def fallo_como_resultado_def error_interno_def)
qed

lemma put_id_aceptado:
  assumes "e \<noteq> []" "fallos w ActualizarClasificacion = None" "dominio_estado w e"
  shows "clasificacion_herbario (snd (put_clasificaciones_id_estado i (Some e) w))
           = map (poner_estado i e) (clasificacion_herbario w)
         \<and> fst (put_clasificaciones_id_estado i (Some e) w) =
             (if lanza (fallos w BuscarMuestraDeClasificacion)
              then \<lparr>status = 500,
                    cuerpo = CuerpoError ''Error interno del servidor''
                      (Some (case fallos w BuscarMuestraDeClasificacion of
                               Some (Lanza msg) \<Rightarrow> msg | _ \<Rightarrow> []))\<rparr>
              else \<lparr>status = 200, cuerpo = CuerpoEstado i e ''Estado actualizado''\<rparr>)"
proof -
  let ?t = "''Actualizando clasificaci'' @ [CHR 0xF3] @ ''n''"
  let ?w2 = "(registrar Debug ?t w)\<lparr>clasificacion_herbario :=
                 map (poner_estado i e) (clasificacion_herbario w)\<rparr>"
  have u: "actualizarEstadoPorId i e (registrar Debug ?t w) = (Resultado None None, ?w2)"
    using assms by (simp add: actualizarEstadoPorId_def registrar_def registrar_con_def)
  show ?thesis
  proof (cases "buscarMuestraDeClasificacion i ?w2")
    case (Excepcion msg)
    then have "fallos w BuscarMuestraDeClasificacion = Some (Lanza msg)"
      by (auto simp: buscarMuestraDeClasificacion_def registrar_def registrar_con_def fallo_como_resultado_def
          single_def split: option.splits fallo.splits list.splits)
    with Excepcion assms(1) u show ?thesis
      by (simp add: put_clasificaciones_id_estado_def sin_estado_def Let_def error_interno_def
          registrar_def registrar_con_def lanza_def)
  next
    case (Resultado c eb)
    then have "\<not> lanza (fallos w BuscarMuestraDeClasificacion)"
      by (auto simp: buscarMuestraDeClasificacion_def registrar_def registrar_con_def fallo_como_resultado_def
          lanza_def split: option.splits fallo.splits)
    with Resultado assms(1) u show ?thesis
      by (cases c) (simp_all add: put_clasificaciones_id_estado_def sin_estado_def Let_def
          registrar_def registrar_con_def enSegundoPlano_clasificaciones)
  qed
qed

lemma put_id_400:
  "(status (fst (put_clasificaciones_id_estado i estado w)) = 400) = sin_estado estado"
proof (cases "sin_estado estado")
  case True
  then show ?thesis by (simp add: put_clasificaciones_id_estado_def estado_requerido_def)
next
  case False
  then obtain e where e: "estado = Some e" "e \<noteq> []"
    by (cases estado) (auto simp: sin_estado_def)
  show ?thesis
  proof (cases "fallos w ActualizarClasificacion = None \<and> dominio_estado w e")
    case True
    with e put_id_aceptado [of e w i] False show ?thesis
      by (auto split: if_splits)
  next
    case False
    with e put_id_rechazo [of e w i] \<open>\<not> sin_estado estado\<close> show ?thesis
      by auto
  qed
qed

subsection \<open>C10: the handlers do not check the value of estado\<close>

text \<open>
  C10 says every non-empty \<^verbatim>\<open>estado\<close> is written and answered with success. The
  handler forwards the string unchecked, but the store decides: where the column admits the
  five lifecycle states only, a string outside them is rejected by the update, the handler
  answers 500 and the row keeps its state.
\<close>

theorem estado_fuera_del_ciclo:
  "''revisado'' \<noteq> []
   \<and> status (fst (put_clasificaciones_id_estado 100 (Some ''revisado'') mundo_enum)) = 500
   \<and> map cl_estado (clasificacion_herbario
        (snd (put_clasificaciones_id_estado 100 (Some ''revisado'') mundo_enum))) = [''borrador'']"
  by (simp add: put_clasificaciones_id_estado_def sin_estado_def Let_def registrar_def registrar_con_def
      actualizarEstadoPorId_def mundo_enum_def sin_fallos_def estados_del_ciclo_def)

text \<open>
  C10, amended. Neither endpoint compares \<^verbatim>\<open>estado\<close> with the lifecycle states. The
  endpoint by classification id answers 400 exactly when \<^verbatim>\<open>estado\<close> is absent or empty,
  and the endpoint by sample id exactly when the id is not a number or \<^verbatim>\<open>estado\<close> is
  absent or empty. For every non-empty \<^verbatim>\<open>estado\<close>, the endpoint by classification id
  hands the string to the store as it is: if the store accepts the update, every row of
  that id holds the string afterwards and the answer is 200 with that \<^verbatim>\<open>estado\<close>
  (unless the lookup that follows throws); if the store rejects it, the answer is 500 and
  the table is unchanged.
\<close>

theorem estado_sin_validar:
  "(status (fst (put_clasificaciones_id_estado i estado w)) = 400) = sin_estado estado
   \<and> (status (fst (put_clasificaciones_idMuestra_estado n estado w)) = 400)
       = (n = None \<or> sin_estado estado)
   \<and> (e \<noteq> [] \<longrightarrow>
        (if fallos w ActualizarClasificacion = None \<and> dominio_estado w e
         then clasificacion_herbario (snd (put_clasificaciones_id_estado i (Some e) w))
                = map (poner_estado i e) (clasificacion_herbario w)
              \<and> (\<not> lanza (fallos w BuscarMuestraDeClasificacion) \<longrightarrow>
                   fst (put_clasificaciones_id_estado i (Some e) w)
                     = \<lparr>status = 200, cuerpo = CuerpoEstado i e ''Estado actualizado''\<rparr>)
         else status (fst (put_clasificaciones_id_estado i (Some e) w)) = 500
              \<and> clasificacion_herbario (snd (put_clasificaciones_id_estado i (Some e) w))
                  = clasificacion_herbario w))"
proof (intro conjI impI)
  show "(status (fst (put_clasificaciones_id_estado i estado w)) = 400) = sin_estado estado"
    by (rule put_id_400)
  show "(status (fst (put_clasificaciones_idMuestra_estado n estado w)) = 400)
       = (n = None \<or> sin_estado estado)"
    by (rule put_idMuestra_400)
next
  assume e: "e \<noteq> []"
  show "if fallos w ActualizarClasificacion = None \<and> dominio_estado w e
         then clasificacion_herbario (snd (put_clasificaciones_id_estado i (Some e) w))
                = map (poner_estado i e) (clasificacion_herbario w)
              \<and> (\<not> lanza (fallos w BuscarMuestraDeClasificacion) \<longrightarrow>
                   fst (put_clasificaciones_id_estado i (Some e) w)
                     = \<lparr>status = 200, cuerpo = CuerpoEstado i e ''Estado actualizado''\<rparr>)
         else status (fst (put_clasificaciones_id_estado i (Some e) w)) = 500
              \<and> clasificacion_herbario (snd (put_clasificaciones_id_estado i (Some e) w))
                  = clasificacion_herbario w"
  proof (cases "fallos w ActualizarClasificacion = None \<and> dominio_estado w e")
    case True
    with put_id_aceptado [OF e, of w i] show ?thesis by simp
  next
    case False
    with put_id_rechazo [OF e, of w i] show ?thesis by auto
  qed
qed

theorem estado_sin_validar_witness:
  "''cualquier cosa'' \<noteq> []
   \<and> ''cualquier cosa'' \<notin> set estados_del_ciclo
   \<and> fallos mundo_dos_completadas ActualizarClasificacion = None
   \<and> dominio_estado mundo_dos_completadas ''cualquier cosa''
   \<and> fst (put_clasificaciones_id_estado 100 (Some ''cualquier cosa'') mundo_dos_completadas)
       = \<lparr>status = 200, cuerpo = CuerpoEstado 100 ''cualquier cosa'' ''Estado actualizado''\<rparr>
   \<and> map cl_estado (clasificacion_herbario
       (snd (put_clasificaciones_id_estado 100 (Some ''cualquier cosa'') mundo_dos_completadas)))
       = [''cualquier cosa'', ''firmado'']
   \<and> status (fst (put_clasificaciones_id_estado 100 (Some []) mundo_dos_completadas)) = 400
   \<and> status (fst (put_clasificaciones_id_estado 100 None mundo_dos_completadas)) = 400"
proof -
  have a: "''cualquier cosa'' \<noteq> []" by simp
  have b: "fallos mundo_dos_completadas ActualizarClasificacion = None"
      "dominio_estado mundo_dos_completadas ''cualquier cosa''"
      "\<not> lanza (fallos mundo_dos_completadas BuscarMuestraDeClasificacion)"
    by (simp_all add: mundo_dos_completadas_def sin_fallos_def lanza_def)
  have c: "map cl_estado (map (poner_estado 100 ''cualquier cosa'')
             (clasificacion_herbario mundo_dos_completadas)) = [''cualquier cosa'', ''firmado'']"
    by (simp add: mundo_dos_completadas_def poner_estado_def)
  have d: "sin_estado (Some [])" "sin_estado None"
    by (simp_all add: sin_estado_def)
  show ?thesis
    using a b c d
      estado_sin_validar [of 100 "Some ''cualquier cosa''" mundo_dos_completadas None "''cualquier cosa''"]
      estado_sin_validar [of 100 "Some []" mundo_dos_completadas None "[]"]
      estado_sin_validar [of 100 None mundo_dos_completadas None "[]"]
    by (simp add: estados_del_ciclo_def)
qed

lemma calcular_sin_especie:
  assumes "clasificacionesConEspecie clasificaciones = []"
  shows "calcularEstadisticas muestras clasificaciones =
     \<lparr>departamentos = [], regiones = map region_vacia regionesBase,
      total_especimenes = 0, total_clasificaciones = 0, especies_amenazadas = []\<rparr>"
  using assms
  by (simp add: calcularEstadisticas_def muestrasClasificadas_def mapasGeo_def ordenar_desc_def
      salidaRegion_def buscarRegion_def region_vacia_def)












subsection \<open>C6: what a failing recompute logs, and that it never reaches the request\<close>





subsection \<open>C7: the statistics of an unclassified herbarium\<close>

text \<open>
  C7. When no classification in state completado or firmado has a species (a species id
  and the species it points to), and the two queries succeed, \<^verbatim>\<open>GET /estadisticas\<close>
  answers with \<^verbatim>\<open>total_especimenes\<close> 0, no department (so no department percentage
  other than 0), the five fixed regions in their order with every field 0, and an empty
  \<^verbatim>\<open>especies_amenazadas\<close>.
\<close>

theorem sin_clasificados:
  assumes "lab_fallos lab ConsultaMuestras = None"
    and "lab_fallos lab ConsultaClasificaciones = None"
    and "\<not> (\<exists>c \<in> set (lab_clasificaciones lab).
              ct_estado c \<in> set estados_terminales \<and> ct_id_especie c \<noteq> None \<and> ct_especie c \<noteq> None)"
  shows "get_estadisticas lab =
     JsonEstadisticas
       \<lparr>departamentos = [],
        regiones =
          [region_vacia ''Andina'', region_vacia ''Caribe'',
           region_vacia (''Pac'' @ [CHR 0xED] @ ''fica''),
           region_vacia (''Orinoqu'' @ [CHR 0xED] @ ''a''),
           region_vacia (''Amazon'' @ [CHR 0xED] @ ''a'')],
        total_especimenes = 0, total_clasificaciones = 0, especies_amenazadas = []\<rparr>"
proof -
  let ?cs = "filter (\<lambda>c. ct_estado c \<in> set estados_terminales) (lab_clasificaciones lab)"
  have "clasificacionesConEspecie ?cs = []"
    using assms(3) by (auto simp: clasificacionesConEspecie_def filter_empty_conv)
  from calcular_sin_especie [OF this, of "lab_muestras lab"] assms(1,2) show ?thesis
    by (simp add: get_estadisticas_def consultarMuestras_def consultarClasificaciones_def
        regionesBase_def)
qed

theorem sin_clasificados_witness:
  "lab_fallos laboratorio_sin_clasificar ConsultaMuestras = None
   \<and> lab_fallos laboratorio_sin_clasificar ConsultaClasificaciones = None
   \<and> \<not> (\<exists>c \<in> set (lab_clasificaciones laboratorio_sin_clasificar).
              ct_estado c \<in> set estados_terminales \<and> ct_id_especie c \<noteq> None \<and> ct_especie c \<noteq> None)
   \<and> get_estadisticas laboratorio_sin_clasificar =
       JsonEstadisticas
         \<lparr>departamentos = [],
          regiones =
            [region_vacia ''Andina'', region_vacia ''Caribe'',
             region_vacia (''Pac'' @ [CHR 0xED] @ ''fica''),
             region_vacia (''Orinoqu'' @ [CHR 0xED] @ ''a''),
             region_vacia (''Amazon'' @ [CHR 0xED] @ ''a'')],
          total_especimenes = 0, total_clasificaciones = 0, especies_amenazadas = []\<rparr>"
proof -
  have a: "lab_fallos laboratorio_sin_clasificar ConsultaMuestras = None"
    and b: "lab_fallos laboratorio_sin_clasificar ConsultaClasificaciones = None"
    by (simp_all add: laboratorio_sin_clasificar_def)
  have c: "\<not> (\<exists>c \<in> set (lab_clasificaciones laboratorio_sin_clasificar).
              ct_estado c \<in> set estados_terminales \<and> ct_id_especie c \<noteq> None \<and> ct_especie c \<noteq> None)"
    by (simp add: laboratorio_sin_clasificar_def)
  show ?thesis using a b c sin_clasificados [OF a b c] by simp
qed

lemma map_of_mapa_set:
  "map_of (mapa_set m k v) k' = (if k' = k then Some v else map_of m k')"
  by (induction m) auto

lemma claves_mapa_set: "set (map fst (mapa_set m k v)) = insert k (set (map fst m))"
  by (induction m) auto

lemma distinct_mapa_set: "distinct (map fst m) \<Longrightarrow> distinct (map fst (mapa_set m k v))"
proof (induction m)
  case Nil
  show ?case by simp
next
  case (Cons p m)
  then show ?case
    using claves_mapa_set [of m k v] by (auto simp del: set_map)
qed

lemma cuenta_en_incrementar:
  "cuenta_en (incrementar k m) k' = cuenta_en m k' + (if k' = k then 1 else 0)"
  by (simp add: cuenta_en_def incrementar_def map_of_mapa_set split: option.splits)

lemma distinct_incrementar: "distinct (map fst m) \<Longrightarrow> distinct (map fst (incrementar k m))"
  by (simp add: incrementar_def distinct_mapa_set)

lemma positivo_incrementar:
  "(\<forall>p \<in> set m. 0 < snd p) \<Longrightarrow> (\<forall>p \<in> set (incrementar k m). 0 < snd p)"
proof -
  have gen: "\<And>v. 0 < v \<Longrightarrow> (\<forall>p \<in> set m. 0 < snd p) \<Longrightarrow> (\<forall>p \<in> set (mapa_set m k v). 0 < snd p)"
    by (induction m) auto
  assume "\<forall>p \<in> set m. 0 < snd p"
  then show ?thesis
    unfolding incrementar_def by (intro gen) (auto split: option.splits)
qed

lemma cuenta_en_contarTaxon:
  "cuenta_en (contarTaxon nivel c m) k
     = cuenta_en m k + (if taxonNombre nivel c = Some k then 1 else 0)"
  by (cases "taxonNombre nivel c") (simp_all add: contarTaxon_def cuenta_en_incrementar)

lemma contarTaxon_fold:
  "cuenta_en (fold (contarTaxon nivel) cs m) k
     = cuenta_en m k + length (filter (\<lambda>c. taxonNombre nivel c = Some k) cs)"
proof (induction cs arbitrary: m)
  case Nil
  show ?case by simp
next
  case (Cons c cs)
  have "cuenta_en (fold (contarTaxon nivel) (c # cs) m) k
          = cuenta_en (fold (contarTaxon nivel) cs (contarTaxon nivel c m)) k"
    by simp
  also have "\<dots> = cuenta_en (contarTaxon nivel c m) k
                    + length (filter (\<lambda>c. taxonNombre nivel c = Some k) cs)"
    by (rule Cons.IH)
  also have "\<dots> = cuenta_en m k + length (filter (\<lambda>c. taxonNombre nivel c = Some k) (c # cs))"
    by (simp add: cuenta_en_contarTaxon)
  finally show ?case .
qed

lemma contarTaxon_inv:
  assumes "distinct (map fst m)" "\<forall>p \<in> set m. 0 < snd p"
  shows "distinct (map fst (contarTaxon nivel c m)) \<and> (\<forall>p \<in> set (contarTaxon nivel c m). 0 < snd p)"
  using assms distinct_incrementar [of m] positivo_incrementar [of m]
  by (cases "taxonNombre nivel c") (simp_all add: contarTaxon_def)

lemma contarTaxon_fold_inv:
  "distinct (map fst m) \<Longrightarrow> (\<forall>p \<in> set m. 0 < snd p) \<Longrightarrow>
   distinct (map fst (fold (contarTaxon nivel) cs m))
   \<and> (\<forall>p \<in> set (fold (contarTaxon nivel) cs m). 0 < snd p)"
proof (induction cs arbitrary: m)
  case Nil
  then show ?case by simp
next
  case (Cons c cs)
  from contarTaxon_inv [OF Cons.prems, of nivel c]
  have "distinct (map fst (contarTaxon nivel c m))"
    "\<forall>p \<in> set (contarTaxon nivel c m). 0 < snd p"
    by blast+
  from Cons.IH [OF this] show ?case by simp
qed

lemma fold_fold_concat: "fold (fold f) xss m = fold f (concat xss) m"
  by (induction xss arbitrary: m) simp_all

lemma taxonMapDe_concat:
  "taxonMapDe nivel ms = fold (contarTaxon nivel) (concat (map clasificacionesDe ms)) []"
  by (simp add: taxonMapDe_def fold_fold_concat [symmetric] fold_map comp_def)

lemma taxonMapDe_entrada:
  assumes "p \<in> set (taxonMapDe nivel ms)"
  shows "snd p = cuentaTaxon nivel (fst p) ms \<and> 0 < snd p"
proof -
  let ?m = "taxonMapDe nivel ms"
  have inv: "distinct (map fst ?m)" "\<forall>p \<in> set ?m. 0 < snd p"
    using contarTaxon_fold_inv [of "[]" nivel "concat (map clasificacionesDe ms)"]
    by (simp_all add: taxonMapDe_concat)
  have "map_of ?m (fst p) = Some (snd p)"
    using map_of_eq_Some_iff [OF inv(1), of "fst p" "snd p"] assms by simp
  then have "cuenta_en ?m (fst p) = snd p"
    by (simp add: cuenta_en_def)
  moreover have "cuenta_en ?m (fst p) = cuentaTaxon nivel (fst p) ms"
    using contarTaxon_fold [of nivel "concat (map clasificacionesDe ms)" "[]" "fst p"]
    by (simp add: taxonMapDe_concat cuentaTaxon_def cuenta_en_def)
  ultimately show ?thesis using inv(2) assms by simp
qed

subsection \<open>C4: the denominator of the taxon percentages\<close>

text \<open>
  C4 takes the samples without a resolvable taxon name out of the denominator. The handler
  divides by \<^verbatim>\<open>muestrasFiltradas.length\<close>, the number of samples at the place, whether
  their taxon resolves or not: of two samples in Huila, one of family Fabaceae and one whose
  species has no genus, Fabaceae gets 50 percent, where the claim's denominator (the one
  sample with a resolvable family) gives 100.
\<close>

theorem taxon_sin_nombre_en_el_denominador:
  "calcularTaxonomia ''Huila'' ''departamento'' ''familia'' muestras_huila
     = [\<lparr>tx_name = ''Fabaceae'', tx_count = 1, tx_percentage = 50\<rparr>]
   \<and> length (conTaxon ''familia'' (filter (enUbicacion ''Huila'' ''departamento'') muestras_huila)) = 1
   \<and> porcentaje 1 1 = 100"
proof -
  have f: "filter (enUbicacion ''Huila'' ''departamento'') muestras_huila = muestras_huila"
    by (simp add: muestras_huila_def huila_def enUbicacion_def departamentoDe_def)
  have tm: "taxonMapDe ''familia'' muestras_huila = [(''Fabaceae'', 1)]"
    by (simp add: muestras_huila_def taxonMapDe_def clasificacionesDe_def contarTaxon_def
        taxonNombre_def especie_inga_def especie_sin_genero_def nombreFamilia_def verdadero_def
        incrementar_def)
  have l: "length muestras_huila = 2" by (simp add: muestras_huila_def)
  have pc: "porcentaje 1 2 = 50"
    by (simp add: porcentaje_def por_cien_def redondeo_def escala_def math_round_def
        longitud_bits.simps Let_def)
  have out: "calcularTaxonomia ''Huila'' ''departamento'' ''familia'' muestras_huila
               = [\<lparr>tx_name = ''Fabaceae'', tx_count = 1, tx_percentage = 50\<rparr>]"
    using pc by (simp add: calcularTaxonomia_def Let_def f tm l ordenar_desc_def salidaTaxon_def)
  have ct: "length (conTaxon ''familia'' muestras_huila) = 1"
    by (simp add: conTaxon_def muestras_huila_def clasificacionesDe_def taxonNombre_def
        especie_inga_def especie_sin_genero_def nombreFamilia_def verdadero_def)
  have p1: "porcentaje 1 1 = 100"
    by (simp add: porcentaje_def por_cien_def redondeo_def escala_def math_round_def
        longitud_bits.simps Let_def)
  show ?thesis using out ct p1 by (simp add: f)
qed

text \<open>
  C4, amended. In the taxonomic filter aggregator a classification whose taxon name does
  not resolve at the requested level adds to no count, but its sample stays in the
  denominator: for every input, each returned entry carries the number of classifications
  of the filtered samples that resolve to its name (at least one), and its percentage is
  \<^verbatim>\<open>Math.round((count / total) * 100)\<close> with \<open>total\<close> the number of all filtered
  samples.
\<close>

theorem porcentaje_sobre_filtradas:
  "\<forall>t \<in> set (calcularTaxonomia ubicacion tipo nivel muestras).
      tx_count t = cuentaTaxon nivel (tx_name t) (filter (enUbicacion ubicacion tipo) muestras)
      \<and> 0 < tx_count t
      \<and> tx_percentage t
          = porcentaje (tx_count t) (length (filter (enUbicacion ubicacion tipo) muestras))"
proof
  fix t
  let ?fs = "filter (enUbicacion ubicacion tipo) muestras"
  assume "t \<in> set (calcularTaxonomia ubicacion tipo nivel muestras)"
  then have "t \<in> set (take 10 (ordenar_desc tx_count
                 (map (salidaTaxon (length ?fs)) (taxonMapDe nivel ?fs))))"
    by (simp add: calcularTaxonomia_def Let_def)
  then have "t \<in> set (ordenar_desc tx_count (map (salidaTaxon (length ?fs)) (taxonMapDe nivel ?fs)))"
    by (rule in_set_takeD)
  then have "t \<in> set (map (salidaTaxon (length ?fs)) (taxonMapDe nivel ?fs))"
    by (simp add: ordenar_desc_def)
  then obtain p where p: "p \<in> set (taxonMapDe nivel ?fs)" "t = salidaTaxon (length ?fs) p"
    by auto
  from taxonMapDe_entrada [OF p(1)] p(2)
  show "tx_count t = cuentaTaxon nivel (tx_name t) ?fs \<and> 0 < tx_count t
        \<and> tx_percentage t = porcentaje (tx_count t) (length ?fs)"
    by (simp add: salidaTaxon_def)
qed

theorem porcentaje_sobre_filtradas_witness:
  "calcularTaxonomia ''Huila'' ''departamento'' ''familia'' muestras_huila
     = [\<lparr>tx_name = ''Fabaceae'', tx_count = 1, tx_percentage = 50\<rparr>]
   \<and> length (filter (enUbicacion ''Huila'' ''departamento'') muestras_huila) = 2
   \<and> cuentaTaxon ''familia'' ''Fabaceae'' (filter (enUbicacion ''Huila'' ''departamento'') muestras_huila) = 1
   \<and> porcentaje 1 2 = 50"
proof -
  let ?out = "calcularTaxonomia ''Huila'' ''departamento'' ''familia'' muestras_huila"
  have f: "filter (enUbicacion ''Huila'' ''departamento'') muestras_huila = muestras_huila"
    by (simp add: muestras_huila_def huila_def enUbicacion_def departamentoDe_def)
  have tm: "taxonMapDe ''familia'' muestras_huila = [(''Fabaceae'', 1)]"
    by (simp add: muestras_huila_def taxonMapDe_def clasificacionesDe_def contarTaxon_def
        taxonNombre_def especie_inga_def especie_sin_genero_def nombreFamilia_def verdadero_def
        incrementar_def)
  have l: "length muestras_huila = 2" by (simp add: muestras_huila_def)
  have out: "?out = [salidaTaxon 2 (''Fabaceae'', 1)]"
    by (simp add: calcularTaxonomia_def Let_def f tm l ordenar_desc_def)
  then have m: "\<lparr>tx_name = ''Fabaceae'', tx_count = 1, tx_percentage = porcentaje 1 2\<rparr> \<in> set ?out"
    by (simp add: salidaTaxon_def)
  from porcentaje_sobre_filtradas [of "''Huila''" "''departamento''" "''familia''" muestras_huila] m
  have c: "cuentaTaxon ''familia'' ''Fabaceae'' muestras_huila = 1"
    by (auto simp: f)
  have pc: "porcentaje 1 2 = 50"
    by (simp add: porcentaje_def por_cien_def redondeo_def escala_def math_round_def
        longitud_bits.simps Let_def)
  show ?thesis using out c pc by (simp add: f l salidaTaxon_def)
qed

lemma positivos_mapa_set:
  "positivos m \<Longrightarrow> 0 < rd_specimens v \<Longrightarrow> positivos (mapa_set m k v)"
  unfolding positivos_def by (induction m) auto

lemma positivos_map_of: "positivos m \<Longrightarrow> map_of m k = Some d \<Longrightarrow> 0 < rd_specimens d"
  unfolding positivos_def by (auto simp: list_all_iff dest!: map_of_SomeD)

lemma contarEnRegion_specimens:
  "specimens_en (contarEnRegion dept reg rm) k
     = specimens_en rm k + (if re_nombre reg = k then 1 else 0)"
  by (simp add: contarEnRegion_def specimens_en_def map_of_mapa_set split: option.splits)

lemma contarEnRegion_inv:
  assumes "distinct (map fst rm)" "positivos rm"
  shows "distinct (map fst (contarEnRegion dept reg rm)) \<and> positivos (contarEnRegion dept reg rm)"
  using assms
  by (auto simp: contarEnRegion_def distinct_mapa_set positivos_mapa_set split: option.splits)

lemma anotarEnRegion_specimens:
  "specimens_en (anotarEnRegion reg esp rm) k = specimens_en rm k"
  by (auto simp: anotarEnRegion_def specimens_en_def map_of_mapa_set split: option.splits)

lemma anotarEnRegion_inv:
  assumes "distinct (map fst rm)" "positivos rm"
  shows "distinct (map fst (anotarEnRegion reg esp rm)) \<and> positivos (anotarEnRegion reg esp rm)"
proof (cases "map_of rm (re_nombre reg)")
  case None
  with assms show ?thesis by (simp add: anotarEnRegion_def)
next
  case (Some d)
  from positivos_map_of [OF assms(2) Some] have "0 < rd_specimens d" .
  with Some assms show ?thesis
    by (simp add: anotarEnRegion_def distinct_mapa_set positivos_mapa_set)
qed

lemma contarMuestraGeo_specimens:
  "specimens_en (snd (contarMuestraGeo m mapas)) k
     = specimens_en (snd mapas) k + (if nombreRegionDe m = Some k then 1 else 0)"
  by (auto simp: contarMuestraGeo_def nombreRegionDe_def contarEnRegion_specimens
      split: option.splits)

lemma contarMuestraGeo_inv:
  assumes "distinct (map fst (snd mapas))" "positivos (snd mapas)"
  shows "distinct (map fst (snd (contarMuestraGeo m mapas)))
         \<and> positivos (snd (contarMuestraGeo m mapas))"
  using assms contarEnRegion_inv [OF assms]
  by (auto simp: contarMuestraGeo_def split: option.splits)

lemma anotarClasificacion_specimens:
  "specimens_en (snd (anotarClasificacion ms c mapas)) k = specimens_en (snd mapas) k"
  by (auto simp: anotarClasificacion_def anotarEnRegion_specimens split: option.splits)

lemma anotarClasificacion_inv:
  assumes "distinct (map fst (snd mapas))" "positivos (snd mapas)"
  shows "distinct (map fst (snd (anotarClasificacion ms c mapas)))
         \<and> positivos (snd (anotarClasificacion ms c mapas))"
  using assms anotarEnRegion_inv [OF assms]
  by (auto simp: anotarClasificacion_def split: option.splits)

lemma fold_contar_specimens:
  "specimens_en (snd (fold contarMuestraGeo ms mapas)) k
     = specimens_en (snd mapas) k + cuentaRegion k ms"
proof (induction ms arbitrary: mapas)
  case Nil
  show ?case by (simp add: cuentaRegion_def)
next
  case (Cons m ms)
  have "specimens_en (snd (fold contarMuestraGeo (m # ms) mapas)) k
          = specimens_en (snd (fold contarMuestraGeo ms (contarMuestraGeo m mapas))) k"
    by simp
  also have "\<dots> = specimens_en (snd (contarMuestraGeo m mapas)) k + cuentaRegion k ms"
    by (rule Cons.IH)
  also have "\<dots> = specimens_en (snd mapas) k + cuentaRegion k (m # ms)"
    by (simp add: contarMuestraGeo_specimens cuentaRegion_def)
  finally show ?case .
qed

lemma fold_contar_inv:
  "distinct (map fst (snd mapas)) \<Longrightarrow> positivos (snd mapas) \<Longrightarrow>
   distinct (map fst (snd (fold contarMuestraGeo ms mapas)))
   \<and> positivos (snd (fold contarMuestraGeo ms mapas))"
proof (induction ms arbitrary: mapas)
  case Nil
  then show ?case by simp
next
  case (Cons m ms)
  from contarMuestraGeo_inv [OF Cons.prems, of m]
  have "distinct (map fst (snd (contarMuestraGeo m mapas)))"
    "positivos (snd (contarMuestraGeo m mapas))"
    by blast+
  from Cons.IH [OF this] show ?case by simp
qed

lemma fold_anotar_specimens:
  "specimens_en (snd (fold (anotarClasificacion ms) cs mapas)) k = specimens_en (snd mapas) k"
proof (induction cs arbitrary: mapas)
  case Nil
  show ?case by simp
next
  case (Cons c cs)
  have "specimens_en (snd (fold (anotarClasificacion ms) (c # cs) mapas)) k
          = specimens_en (snd (fold (anotarClasificacion ms) cs (anotarClasificacion ms c mapas))) k"
    by simp
  also have "\<dots> = specimens_en (snd (anotarClasificacion ms c mapas)) k"
    by (rule Cons.IH)
  also have "\<dots> = specimens_en (snd mapas) k"
    by (rule anotarClasificacion_specimens)
  finally show ?case .
qed

lemma fold_anotar_inv:
  "distinct (map fst (snd mapas)) \<Longrightarrow> positivos (snd mapas) \<Longrightarrow>
   distinct (map fst (snd (fold (anotarClasificacion ms) cs mapas)))
   \<and> positivos (snd (fold (anotarClasificacion ms) cs mapas))"
proof (induction cs arbitrary: mapas)
  case Nil
  then show ?case by simp
next
  case (Cons c cs)
  from anotarClasificacion_inv [OF Cons.prems, of ms c]
  have "distinct (map fst (snd (anotarClasificacion ms c mapas)))"
    "positivos (snd (anotarClasificacion ms c mapas))"
    by blast+
  from Cons.IH [OF this] show ?case by simp
qed

lemma mapasGeo_regiones:
  fixes muestras clasificaciones
  defines "ms \<equiv> muestrasClasificadas muestras clasificaciones"
    and "rm \<equiv> snd (mapasGeo muestras clasificaciones)"
  shows "specimens_en rm k = cuentaRegion k ms"
    and "distinct (map fst rm)"
    and "positivos rm"
proof -
  let ?m1 = "fold contarMuestraGeo ms ([], [])"
  have rm: "rm = snd (fold (anotarClasificacion ms) (clasificacionesConEspecie clasificaciones) ?m1)"
    by (simp add: rm_def ms_def mapasGeo_def)
  have i1: "distinct (map fst (snd ?m1))" "positivos (snd ?m1)"
    using fold_contar_inv [of "([], [])" ms] by (simp_all add: positivos_def)
  have "specimens_en (snd ([], [])) k = 0"
    by (simp add: specimens_en_def)
  with fold_contar_specimens [of ms "([], [])" k]
  have "specimens_en (snd ?m1) k = cuentaRegion k ms"
    by simp
  then show "specimens_en rm k = cuentaRegion k ms"
    by (simp only: rm fold_anotar_specimens)
  show "distinct (map fst rm)" "positivos rm"
    using fold_anotar_inv [OF i1, of ms "clasificacionesConEspecie clasificaciones"]
    by (simp_all add: rm)
qed

lemma mapasGeo_map_of:
  fixes muestras clasificaciones
  defines "ms \<equiv> muestrasClasificadas muestras clasificaciones"
    and "rm \<equiv> snd (mapasGeo muestras clasificaciones)"
  shows "(map_of rm k = None) = (cuentaRegion k ms = 0)"
    and "map_of rm k = Some d \<Longrightarrow> rd_specimens d = cuentaRegion k ms"
proof -
  have s: "specimens_en rm k = cuentaRegion k ms" and p: "positivos rm"
    unfolding rm_def ms_def by (rule mapasGeo_regiones)+
  show "(map_of rm k = None) = (cuentaRegion k ms = 0)"
  proof (cases "map_of rm k")
    case None
    with s show ?thesis by (simp add: specimens_en_def)
  next
    case (Some d')
    from positivos_map_of [OF p Some] s Some show ?thesis by (simp add: specimens_en_def)
  qed
  show "map_of rm k = Some d \<Longrightarrow> rd_specimens d = cuentaRegion k ms"
    using s by (simp add: specimens_en_def)
qed

text \<open>
  The arithmetic at a few points: 29 of 200 is 14.499999999999998 in doubles and rounds to
  14, an eighth is 12.5 and rounds up, a third has 33.3 as its nearest tenth.
\<close>

lemma porcentaje_ejemplos:
  "porcentaje 29 200 = 14" "porcentaje 1 8 = 13" "porcentaje 1 3 = 33"
  "porcentaje_decimas 1 3 = 333"
  by (simp_all add: porcentaje_def porcentaje_decimas_def por_cien_def redondeo_def escala_def
      math_round_def decimas_def longitud_bits.simps Let_def)

lemma porcentaje_cero: "porcentaje 0 t = 0"
  by (simp add: porcentaje_def redondeo_def por_cien_def math_round_def)


lemma salidaRegion_forma:
  "rs_name (salidaRegion t rm b) = b
   \<and> rs_specimens (salidaRegion t rm b)
       = (case buscarRegion rm b of None \<Rightarrow> 0 | Some d \<Rightarrow> rd_specimens d)
   \<and> rs_percentage (salidaRegion t rm b) = porcentaje (rs_specimens (salidaRegion t rm b)) t"
  by (simp add: salidaRegion_def porcentaje_cero split: option.splits)

lemma region_elegida:
  fixes muestras clasificaciones and b :: string
  defines "ms \<equiv> muestrasClasificadas muestras clasificaciones"
    and "rm \<equiv> snd (mapasGeo muestras clasificaciones)"
  defines "n \<equiv> (case buscarRegion rm b of None \<Rightarrow> 0 | Some d \<Rightarrow> rd_specimens d)"
  shows "0 < cuentaRegion b ms \<Longrightarrow> n = cuentaRegion b ms"
    and "cuentaRegion b ms = 0 \<Longrightarrow> 0 < cuentaRegion (con_prefijo b) ms
           \<Longrightarrow> n = cuentaRegion (con_prefijo b) ms"
    and "cuentaRegion b ms = 0 \<Longrightarrow> cuentaRegion (con_prefijo b) ms = 0 \<Longrightarrow>
           (\<exists>k. normalizarRegion (Some k) = Some b \<and> 0 < cuentaRegion k ms \<and> n = cuentaRegion k ms)
           \<or> (n = 0 \<and> (\<forall>k. normalizarRegion (Some k) = Some b \<longrightarrow> cuentaRegion k ms = 0))"
proof -
  have none: "\<And>k. (map_of rm k = None) = (cuentaRegion k ms = 0)"
    and some: "\<And>k d. map_of rm k = Some d \<Longrightarrow> rd_specimens d = cuentaRegion k ms"
    unfolding rm_def ms_def by (rule mapasGeo_map_of)+
  have dist: "distinct (map fst rm)"
    unfolding rm_def by (rule mapasGeo_regiones)
  {
    assume a: "0 < cuentaRegion b ms"
    then obtain d where d: "map_of rm b = Some d"
      using none [of b] by (cases "map_of rm b") auto
    with some [OF d] show "n = cuentaRegion b ms"
      by (simp add: n_def buscarRegion_def)
  }
  {
    assume a: "cuentaRegion b ms = 0" "0 < cuentaRegion (con_prefijo b) ms"
    then have nb: "map_of rm b = None" using none [of b] by simp
    from a obtain d where d: "map_of rm (con_prefijo b) = Some d"
      using none [of "con_prefijo b"] by (cases "map_of rm (con_prefijo b)") auto
    with nb some [OF d] show "n = cuentaRegion (con_prefijo b) ms"
      by (simp add: n_def buscarRegion_def)
  }
  {
    assume a: "cuentaRegion b ms = 0" "cuentaRegion (con_prefijo b) ms = 0"
    then have nb: "map_of rm b = None" "map_of rm (con_prefijo b) = None"
      using none by simp_all
    let ?P = "\<lambda>entrada::string \<times> region_data. normalizarRegion (Some (fst entrada)) = Some b"
    show "(\<exists>k. normalizarRegion (Some k) = Some b \<and> 0 < cuentaRegion k ms \<and> n = cuentaRegion k ms)
           \<or> (n = 0 \<and> (\<forall>k. normalizarRegion (Some k) = Some b \<longrightarrow> cuentaRegion k ms = 0))"
    proof (cases "find ?P rm")
      case None
      have "\<forall>k. normalizarRegion (Some k) = Some b \<longrightarrow> cuentaRegion k ms = 0"
      proof (intro allI impI)
        fix k assume k: "normalizarRegion (Some k) = Some b"
        show "cuentaRegion k ms = 0"
        proof (rule ccontr)
          assume "cuentaRegion k ms \<noteq> 0"
          then obtain d where "map_of rm k = Some d"
            using none [of k] by (cases "map_of rm k") auto
          then have "(k, d) \<in> set rm" by (rule map_of_SomeD)
          with None k show False by (auto simp: find_None_iff)
        qed
      qed
      moreover from None nb have "n = 0"
        by (simp add: n_def buscarRegion_def)
      ultimately show ?thesis by blast
    next
      case (Some p)
      then have p: "p \<in> set rm" "?P p"
        by (auto simp: find_Some_iff)
      then have m: "map_of rm (fst p) = Some (snd p)"
        using map_of_eq_Some_iff [OF dist, of "fst p" "snd p"] by simp
      from some [OF m] none [of "fst p"] m
      have "rd_specimens (snd p) = cuentaRegion (fst p) ms" "0 < cuentaRegion (fst p) ms"
        by simp_all
      moreover from Some nb have "n = rd_specimens (snd p)"
        by (simp add: n_def buscarRegion_def)
      ultimately show ?thesis using p(2) by auto
    qed
  }
qed

subsection \<open>C5: two spellings of one region\<close>

text \<open>
  C5. Region names are normalised so that the specimens stored under the name with the
  prefix and those stored under the bare name are accumulated into one output bucket. The
  handler defines \<^verbatim>\<open>normalizarRegion\<close> for that and looks each fixed region up under
  its variants, but it accumulates under the stored name and reads one entry of the map:
  with one classified specimen stored under each spelling of Andina, the two names
  normalise to Andina, the total is 2, and the bucket of Andina reports 1 specimen, 1
  department and 50 percent. The specimen stored under the other spelling is in no bucket.
\<close>

theorem dos_grafias_dos_cubetas:
  "normalizarRegion (Some (con_prefijo ''Andina'')) = Some ''Andina''
   \<and> normalizarRegion (Some ''Andina'') = Some ''Andina''
   \<and> map nombreRegionDe (muestrasClasificadas muestras_andinas clasificaciones_andinas)
       = [Some (con_prefijo ''Andina''), Some ''Andina'']
   \<and> total_especimenes (calcularEstadisticas muestras_andinas clasificaciones_andinas) = 2
   \<and> hd (regiones (calcularEstadisticas muestras_andinas clasificaciones_andinas))
       = \<lparr>rs_name = ''Andina'', rs_departments = 1, rs_specimens = 1, rs_species = 1,
          rs_families = 1, rs_percentage = 50\<rparr>"
proof -
  have n1: "normalizarRegion (Some (con_prefijo ''Andina'')) = Some ''Andina''"
    by (simp add: normalizarRegion_def con_prefijo_def quitar_prefijo_def empieza_por_region_def
        letras_region_def trim_def es_espacio_def)
  have n2: "normalizarRegion (Some ''Andina'') = Some ''Andina''"
    by (simp add: normalizarRegion_def quitar_prefijo_def empieza_por_region_def
        letras_region_def trim_def es_espacio_def)
  have ce: "clasificacionesConEspecie clasificaciones_andinas = clasificaciones_andinas"
    by (simp add: clasificacionesConEspecie_def clasificaciones_andinas_def)
  have mc: "muestrasClasificadas muestras_andinas clasificaciones_andinas = muestras_andinas"
    by (simp add: muestrasClasificadas_def ce) (simp add: muestras_andinas_def clasificaciones_andinas_def)
  have nr: "map nombreRegionDe muestras_andinas = [Some (con_prefijo ''Andina''), Some ''Andina'']"
    by (simp add: muestras_andinas_def nombreRegionDe_def departamentoDe_def huila_def tolima_def)
  have p1: "fold contarMuestraGeo muestras_andinas ([], []) =
     ([(''Huila'', \<lparr>dd_name = ''Huila'', dd_specimens = 1, dd_species = [],
                     dd_region = Some (con_prefijo ''Andina'')\<rparr>),
       (''Tolima'', \<lparr>dd_name = ''Tolima'', dd_specimens = 1, dd_species = [],
                      dd_region = Some ''Andina''\<rparr>)],
      [(con_prefijo ''Andina'',
          \<lparr>rd_name = con_prefijo ''Andina'', rd_specimens = 1, rd_species = [], rd_families = [],
           rd_departments = [''Huila'']\<rparr>),
       (''Andina'',
          \<lparr>rd_name = ''Andina'', rd_specimens = 1, rd_species = [], rd_families = [],
           rd_departments = [''Tolima'']\<rparr>)])"
    by (simp add: muestras_andinas_def contarMuestraGeo_def departamentoDe_def huila_def tolima_def
        contarEnDept_def contarEnRegion_def con_prefijo_def)
  have p2: "snd (mapasGeo muestras_andinas clasificaciones_andinas) =
      [(con_prefijo ''Andina'',
          \<lparr>rd_name = con_prefijo ''Andina'', rd_specimens = 1, rd_species = [''Inga edulis''],
           rd_families = [''Fabaceae''], rd_departments = [''Huila'']\<rparr>),
       (''Andina'',
          \<lparr>rd_name = ''Andina'', rd_specimens = 1, rd_species = [''Inga edulis''],
           rd_families = [''Fabaceae''], rd_departments = [''Tolima'']\<rparr>)]"
    unfolding mapasGeo_def mc ce p1
    by (simp add: clasificaciones_andinas_def muestras_andinas_def anotarClasificacion_def
        departamentoDe_def huila_def tolima_def anotarEnDept_def anotarEnRegion_def
        especie_inga_def verdadero_def nombreFamilia_def set_add_def con_prefijo_def)
  have pc: "porcentaje 1 2 = 50"
    by (simp add: porcentaje_def por_cien_def redondeo_def escala_def math_round_def
        longitud_bits.simps Let_def)
  have l: "length muestras_andinas = 2" by (simp add: muestras_andinas_def)
  have r: "salidaRegion 2 (snd (mapasGeo muestras_andinas clasificaciones_andinas)) ''Andina''
             = \<lparr>rs_name = ''Andina'', rs_departments = 1, rs_specimens = 1, rs_species = 1,
                rs_families = 1, rs_percentage = 50\<rparr>"
    using pc unfolding p2 by (simp add: salidaRegion_def buscarRegion_def con_prefijo_def)
  have t: "total_especimenes (calcularEstadisticas muestras_andinas clasificaciones_andinas) = 2"
    by (simp add: calcularEstadisticas_def Let_def mc l)
  have h: "hd (regiones (calcularEstadisticas muestras_andinas clasificaciones_andinas))
             = salidaRegion 2 (snd (mapasGeo muestras_andinas clasificaciones_andinas)) ''Andina''"
    by (simp add: calcularEstadisticas_def Let_def mc l regionesBase_def)
  show ?thesis using n1 n2 nr t h r by (simp add: mc)
qed

text \<open>
  The filter of \<^verbatim>\<open>GET /estadisticas/taxonomia\<close>, asked for a region, takes a sample
  stored under either spelling.
\<close>

lemma filtro_taxonomia_une_grafias:
  assumes "ubicacion \<noteq> []"
    and "map_option re_nombre (Option.bind (departamentoDe (mt_paquete m)) de_region) = Some ubicacion
         \<or> map_option re_nombre (Option.bind (departamentoDe (mt_paquete m)) de_region)
             = Some (con_prefijo ubicacion)"
  shows "enUbicacion ubicacion ''region'' m"
  using assms by (auto simp: enUbicacion_def Let_def)

text \<open>
  What the handler reports for a fixed region, for every data set: the count stored under
  the bare name if there is one, else the count stored under the name with the prefix, else
  the count of one stored name that normalises to the fixed name, else zero; never the sum
  over the spellings.
\<close>

lemma region_por_nombre_almacenado:
  "map rs_name (regiones (calcularEstadisticas muestras clasificaciones)) = regionesBase
   \<and> (\<forall>e \<in> set (regiones (calcularEstadisticas muestras clasificaciones)).
        (0 < cuentaRegion (rs_name e) (muestrasClasificadas muestras clasificaciones) \<longrightarrow>
           rs_specimens e = cuentaRegion (rs_name e) (muestrasClasificadas muestras clasificaciones))
        \<and> (cuentaRegion (rs_name e) (muestrasClasificadas muestras clasificaciones) = 0
            \<and> 0 < cuentaRegion (con_prefijo (rs_name e)) (muestrasClasificadas muestras clasificaciones) \<longrightarrow>
           rs_specimens e
             = cuentaRegion (con_prefijo (rs_name e)) (muestrasClasificadas muestras clasificaciones))
        \<and> (cuentaRegion (rs_name e) (muestrasClasificadas muestras clasificaciones) = 0
            \<and> cuentaRegion (con_prefijo (rs_name e)) (muestrasClasificadas muestras clasificaciones) = 0 \<longrightarrow>
           (\<exists>k. normalizarRegion (Some k) = Some (rs_name e)
                \<and> 0 < cuentaRegion k (muestrasClasificadas muestras clasificaciones)
                \<and> rs_specimens e = cuentaRegion k (muestrasClasificadas muestras clasificaciones))
           \<or> (rs_specimens e = 0
               \<and> (\<forall>k. normalizarRegion (Some k) = Some (rs_name e) \<longrightarrow>
                      cuentaRegion k (muestrasClasificadas muestras clasificaciones) = 0)))
        \<and> rs_percentage e
            = porcentaje (rs_specimens e) (length (muestrasClasificadas muestras clasificaciones)))"
proof (intro conjI ballI)
  let ?ms = "muestrasClasificadas muestras clasificaciones"
  let ?rm = "snd (mapasGeo muestras clasificaciones)"
  have regs: "regiones (calcularEstadisticas muestras clasificaciones)
                = map (salidaRegion (length ?ms) ?rm) regionesBase"
    by (simp add: calcularEstadisticas_def Let_def)
  show "map rs_name (regiones (calcularEstadisticas muestras clasificaciones)) = regionesBase"
    by (simp add: regs comp_def salidaRegion_forma map_idI)
  fix e
  assume "e \<in> set (regiones (calcularEstadisticas muestras clasificaciones))"
  then obtain b where e: "e = salidaRegion (length ?ms) ?rm b"
    by (auto simp: regs)
  have nm: "rs_name e = b"
    and sp: "rs_specimens e = (case buscarRegion ?rm b of None \<Rightarrow> 0 | Some d \<Rightarrow> rd_specimens d)"
    and pc: "rs_percentage e = porcentaje (rs_specimens e) (length ?ms)"
    using salidaRegion_forma [of "length ?ms" ?rm b] by (simp_all add: e)
  show "0 < cuentaRegion (rs_name e) ?ms \<longrightarrow> rs_specimens e = cuentaRegion (rs_name e) ?ms"
    using region_elegida(1) [of b muestras clasificaciones] by (simp add: nm sp)
  show "cuentaRegion (rs_name e) ?ms = 0 \<and> 0 < cuentaRegion (con_prefijo (rs_name e)) ?ms \<longrightarrow>
           rs_specimens e = cuentaRegion (con_prefijo (rs_name e)) ?ms"
    using region_elegida(2) [of b muestras clasificaciones] by (simp add: nm sp)
  show "cuentaRegion (rs_name e) ?ms = 0 \<and> cuentaRegion (con_prefijo (rs_name e)) ?ms = 0 \<longrightarrow>
           (\<exists>k. normalizarRegion (Some k) = Some (rs_name e)
                \<and> 0 < cuentaRegion k ?ms \<and> rs_specimens e = cuentaRegion k ?ms)
           \<or> (rs_specimens e = 0
               \<and> (\<forall>k. normalizarRegion (Some k) = Some (rs_name e) \<longrightarrow> cuentaRegion k ?ms = 0))"
    using region_elegida(3) [of b muestras clasificaciones] by (simp add: nm sp)
  show "rs_percentage e = porcentaje (rs_specimens e) (length ?ms)"
    by (rule pc)
qed


end
